theory Spec2Isabelle
  imports Main "HOL-Library.Word"
begin

section \<open>The RBD mirror store of the metrics exporter\<close>

text \<open>
  A shallow embedding of \<^verbatim>\<open>metrics/internal/cache/rbd-mirror.go\<close>: the store
  \<^verbatim>\<open>RBDMirrorStore\<close> that caches, per CephBlockPool UID, the verbose mirror status
  reported by the \<^verbatim>\<open>rbd\<close> command line tool.

  The model is sequential: every operation runs alone, so a \<^verbatim>\<open>Lock\<close> of the store's
  \<^verbatim>\<open>sync.RWMutex\<close> never waits. What the code does with the mutex and with the map is
  recorded as a list of events, in the order of the statements. Everything outside the file
  (the Kubernetes client, the spawned process, the JSON decoder) is a parameter, the record
  \<open>world\<close>; the calls made to it are recorded in the order they are issued.
\<close>

subsection \<open>Data model\<close>

text \<open>The decoded output of \<^verbatim>\<open>rbd mirror pool status --verbose --format json\<close>.
  Go's \<^verbatim>\<open>int\<close> is 64 bits wide on the supported platforms; a nil slice is the empty list.
  Field names that occur in several Go structs carry the struct's initials here.\<close>

record RBDMirrorImageStatusStates =
  Unknown :: "64 word"
  Error :: "64 word"
  Syncing :: "64 word"
  StartingReplay :: "64 word"
  Replaying :: "64 word"
  StoppingReplay :: "64 word"
  Stopped :: "64 word"

record RBDMirrorPoolStatusSummary =
  Health :: string
  DaemonHealth :: string
  ImageHealth :: string
  States :: RBDMirrorImageStatusStates

record RBDMirrorDaemonStatus =
  ds_ServiceID :: string
  ds_InstanceID :: string
  ds_ClientID :: string
  ds_Hostname :: string
  ds_CephVersion :: string
  ds_Leader :: bool
  ds_Health :: string

record RBDMirrorDaemonService =
  sv_ServiceID :: string
  sv_InstanceID :: string
  sv_DaemonID :: string
  sv_Hostname :: string

record RBDMirrorPeerSite =
  ps_SiteName :: string
  ps_MirrorUuids :: string
  ps_State :: string
  ps_Description :: string
  ps_LastUpdate :: string

record RBDMirrorImageStatus =
  im_Name :: string
  im_GlobalID :: string
  im_State :: string
  im_Description :: string
  im_DaemonService :: RBDMirrorDaemonService
  im_LastUpdate :: string
  im_PeerSites :: "RBDMirrorPeerSite list"

record RBDMirrorStatusVerbose =
  Summary :: RBDMirrorPoolStatusSummary
  Daemons :: "RBDMirrorDaemonStatus list"
  Images :: "RBDMirrorImageStatus list"

type_synonym UID = string

record RBDMirrorPoolStatusVerbose =
  PoolName :: string
  PoolNamespace :: string
  MirrorStatus :: RBDMirrorStatusVerbose

text \<open>The zero value of \<^verbatim>\<open>RBDMirrorStatusVerbose\<close>, which \<^verbatim>\<open>var rbdMirrorStatusVerbose\<close>
  declares.\<close>

definition zero_RBDMirrorStatusVerbose :: RBDMirrorStatusVerbose where
  "zero_RBDMirrorStatusVerbose =
     \<lparr>Summary = \<lparr>Health = [], DaemonHealth = [], ImageHealth = [],
        States = \<lparr>Unknown = 0, Error = 0, Syncing = 0, StartingReplay = 0, Replaying = 0,
          StoppingReplay = 0, Stopped = 0\<rparr>\<rparr>,
      Daemons = [], Images = []\<rparr>"

record csiClusterConfig =
  ClusterID :: string
  Monitors :: "string list"

text \<open>\<^verbatim>\<open>type rbdCommandInput struct { monitor, id, key string }\<close>; the field \<^verbatim>\<open>id\<close> is
  \<open>id'\<close> here, \<open>id\<close> being the identity function of HOL.\<close>

record rbdCommandInput =
  monitor :: string
  id' :: string
  key :: string

text \<open>The objects an event hands to the store. Only the parts of a CephBlockPool that the
  file reads are kept: the object metadata and \<^verbatim>\<open>Spec.Mirroring.Enabled\<close>.\<close>

record ObjectMeta =
  Name :: string
  Namespace :: string
  UID :: UID

record CephBlockPool =
  Meta :: ObjectMeta
  Spec_Mirroring_Enabled :: bool

text \<open>An \<^verbatim>\<open>interface{}\<close> argument is a pointer to a CephBlockPool, a pointer to another
  API object that carries object metadata (its Go type name is kept for \<^verbatim>\<open>%T\<close>), or a value
  without object metadata (again with its type name; the untyped \<^verbatim>\<open>nil\<close> is one). Either
  pointer may be nil: \<^verbatim>\<open>(*cephv1.CephBlockPool)(nil)\<close> is a value of the interface type
  \<^verbatim>\<open>metav1.Object\<close> and of the pointer type, though it points to no pool.\<close>

datatype obj =
    PoolObj CephBlockPool
  | NilPoolObj
  | OtherObj string ObjectMeta
  | NilOtherObj string
  | NoMetaObj string

type_synonym ext_error = string

datatype error =
    NotAnObject                         \<comment> \<open>the error of \<^verbatim>\<open>meta.Accessor\<close>\<close>
  | UnexpectedType string               \<comment> \<open>\<^verbatim>\<open>unexpected object of type %T\<close>\<close>
  | NotAllowedNamespace string          \<comment> \<open>\<^verbatim>\<open>rbd-mirror metrics collection from namespace %q is not allowed\<close>\<close>
  | SecretLookupError string ext_error  \<comment> \<open>\<^verbatim>\<open>failed to get secret in namespace %q: %v\<close>\<close>
  | SecretFieldMissing string           \<comment> \<open>\<^verbatim>\<open>failed to get client key from secret in namespace %q\<close>\<close>
  | ConfigLookupError string ext_error  \<comment> \<open>\<^verbatim>\<open>failed to get configmap in namespace %q: %v\<close>\<close>
  | ConfigFieldMissing string           \<comment> \<open>\<^verbatim>\<open>failed to get CSI cluster config from configmap in namespace %q\<close>\<close>
  | ConfigParseError string ext_error   \<comment> \<open>\<^verbatim>\<open>failed to unmarshal csi-cluster-config-json in namespace %q: %v\<close>\<close>
  | NoClusterConfig string              \<comment> \<open>\<^verbatim>\<open>expected 1 or more CSI cluster config but found 0 ...\<close>\<close>
  | NoMonitors string                   \<comment> \<open>\<^verbatim>\<open>expected 1 or more monitors but found 0 ...\<close>\<close>
  | IncompleteCredentials               \<comment> \<open>\<^verbatim>\<open>unable to get RBD mirror data. RBD command input not specified\<close>\<close>
  | CommandExecutionError ext_error     \<comment> \<open>the error of \<^verbatim>\<open>cmd.CombinedOutput()\<close>, returned as it is\<close>
  | ResponseParseError ext_error        \<comment> \<open>the error of \<^verbatim>\<open>json.Unmarshal\<close> on the output, returned as it is\<close>
  | RbdCommandErrorForPool string string error  \<comment> \<open>\<^verbatim>\<open>rbd command error for pool %s/%s : %v\<close>\<close>
  | RbdCommandError error               \<comment> \<open>\<^verbatim>\<open>rbd command error: %v\<close>\<close>

text \<open>The two errors with which an operation rejects an object of the wrong kind.\<close>

fun TypeMismatch :: "error \<Rightarrow> bool" where
  "TypeMismatch NotAnObject = True"
| "TypeMismatch (UnexpectedType t) = True"
| "TypeMismatch e = False"

text \<open>A call either returns or panics. The panics the file can raise are dereferences of a
  nil pointer: of a nil object handed in by the caller, and of the nil that a missing key
  of \<^verbatim>\<open>s.rbdCommandInput\<close> yields.\<close>

datatype panic = NilPointerDereference

datatype 'a outcome = Returns 'a | Panics panic

subsection \<open>The outside world\<close>

text \<open>\<^verbatim>\<open>exec.Command(...).CombinedOutput()\<close> either fails to start the command (the
  executable is not found, or the process cannot be created), and then there is no process
  and no output, or starts one process, waits for it and returns what it wrote together
  with the error of a failed exit, if any.\<close>

datatype proc_result =
    StartFailed ext_error
  | Ran string "ext_error option"

datatype ext_call =
    SecretGet string string         \<comment> \<open>namespace, name\<close>
  | ConfigMapGet string string      \<comment> \<open>namespace, name\<close>
  | Exec string "string list" bool  \<comment> \<open>command, arguments, whether a process was started\<close>

text \<open>What the outside answers may depend on everything asked so far (the first argument of
  the three calls), so a secret can appear, rotate or vanish between two calls. The two
  decoders are \<^verbatim>\<open>json.Unmarshal\<close> at the two target types; the decoder of the status hands
  back the target as far as it was filled together with its error.\<close>

record world =
  secrets_get :: "ext_call list \<Rightarrow> string \<Rightarrow> string \<Rightarrow> ext_error + (string \<rightharpoonup> string)"
  configmaps_get :: "ext_call list \<Rightarrow> string \<Rightarrow> string \<Rightarrow> ext_error + (string \<rightharpoonup> string)"
  combined_output :: "ext_call list \<Rightarrow> string \<Rightarrow> string list \<Rightarrow> proc_result"
  unmarshal_clusterConfig :: "string \<Rightarrow> ext_error + csiClusterConfig list"
  unmarshal_status :: "string \<Rightarrow> RBDMirrorStatusVerbose \<times> ext_error option"

text \<open>Whether the outside lets the command start at this point of the history.\<close>

definition starts :: "world \<Rightarrow> ext_call list \<Rightarrow> string \<Rightarrow> string list \<Rightarrow> bool" where
  "starts w h command args =
     (case combined_output w h command args of StartFailed err \<Rightarrow> False | Ran out err \<Rightarrow> True)"

datatype log_entry =
    Info_skipping_disabled string string     \<comment> \<open>\<^verbatim>\<open>skipping rbd mirror status update for pool %s/%s ...\<close>\<close>
  | Error_init_failed string string error    \<comment> \<open>\<^verbatim>\<open>Failed to initialize rbd command input for pool %s/%s: %v\<close>\<close>
  | Error_rbd_command error                  \<comment> \<open>\<^verbatim>\<open>rbd command error: %v\<close>\<close>
  | Info_resync_started
  | Info_resync_ended

subsection \<open>The store\<close>

record RBDMirrorStore =
  Store :: "UID \<rightharpoonup> RBDMirrorPoolStatusVerbose"
  rbdCommandInput :: "string \<rightharpoonup> rbdCommandInput"
  allowedNamespaces :: "string list"

text \<open>What the code does with \<^verbatim>\<open>s.Mutex\<close> and with the map \<^verbatim>\<open>s.Store\<close>.\<close>

datatype store_event =
    MutexLock            \<comment> \<open>\<^verbatim>\<open>s.Mutex.Lock()\<close>\<close>
  | MutexUnlock          \<comment> \<open>\<^verbatim>\<open>s.Mutex.Unlock()\<close>, deferred or not\<close>
  | StorePut UID         \<comment> \<open>\<^verbatim>\<open>s.Store[uid] = ...\<close>\<close>
  | StoreDelete UID      \<comment> \<open>\<^verbatim>\<open>delete(s.Store, uid)\<close>\<close>
  | StoreClear           \<comment> \<open>\<^verbatim>\<open>s.Store = map[types.UID]RBDMirrorPoolStatusVerbose{}\<close>\<close>

text \<open>The store together with what the run has done so far: the external calls issued, the
  lines written with \<^verbatim>\<open>klog\<close>, and the events on the mutex and the map.\<close>

record sys = RBDMirrorStore +
  calls :: "ext_call list"
  klog :: "log_entry list"
  events :: "store_event list"

definition klog_write :: "log_entry \<Rightarrow> sys \<Rightarrow> sys" where
  "klog_write l s = s\<lparr>klog := klog s @ [l]\<rparr>"

definition Mutex_Lock :: "sys \<Rightarrow> sys" where
  "Mutex_Lock s = s\<lparr>events := events s @ [MutexLock]\<rparr>"

definition Mutex_Unlock :: "sys \<Rightarrow> sys" where
  "Mutex_Unlock s = s\<lparr>events := events s @ [MutexUnlock]\<rparr>"

definition Store_put :: "UID \<Rightarrow> RBDMirrorPoolStatusVerbose \<Rightarrow> sys \<Rightarrow> sys" where
  "Store_put uid v s = s\<lparr>Store := (Store s)(uid \<mapsto> v), events := events s @ [StorePut uid]\<rparr>"

definition Store_delete :: "UID \<Rightarrow> sys \<Rightarrow> sys" where
  "Store_delete uid s = s\<lparr>Store := (Store s)(uid := None), events := events s @ [StoreDelete uid]\<rparr>"

definition Store_clear :: "sys \<Rightarrow> sys" where
  "Store_clear s = s\<lparr>Store := Map.empty, events := events s @ [StoreClear]\<rparr>"

text \<open>\<^verbatim>\<open>meta.Accessor\<close> of apimachinery: a value of a type that implements
  \<^verbatim>\<open>metav1.Object\<close> is handed back as it is, a nil pointer included (\<open>None\<close> here, the metadata
  the pointer leads to otherwise); any other value is an error.\<close>

fun meta_Accessor :: "obj \<Rightarrow> error + ObjectMeta option" where
  "meta_Accessor (PoolObj pool) = Inr (Some (Meta pool))"
| "meta_Accessor NilPoolObj = Inr None"
| "meta_Accessor (OtherObj t m) = Inr (Some m)"
| "meta_Accessor (NilOtherObj t) = Inr None"
| "meta_Accessor (NoMetaObj t) = Inl NotAnObject"

text \<open>\<^verbatim>\<open>o.GetUID()\<close> reads the metadata through the pointer.\<close>

fun GetUID :: "ObjectMeta option \<Rightarrow> UID outcome" where
  "GetUID None = Panics NilPointerDereference"
| "GetUID (Some m) = Returns (UID m)"

fun type_name :: "obj \<Rightarrow> string" where
  "type_name (PoolObj pool) = ''*v1.CephBlockPool''"
| "type_name NilPoolObj = ''*v1.CephBlockPool''"
| "type_name (OtherObj t m) = t"
| "type_name (NilOtherObj t) = t"
| "type_name (NoMetaObj t) = t"

subsection \<open>WithRBDCommandInput\<close>

text \<open>The loop over \<^verbatim>\<open>s.allowedNamespaces\<close> that sets \<^verbatim>\<open>allow\<close> and breaks at the first
  equal item.\<close>

fun allow :: "string list \<Rightarrow> string \<Rightarrow> bool" where
  "allow [] namespace = False"
| "allow (item # items) namespace = (if item = namespace then True else allow items namespace)"

definition WithRBDCommandInput :: "world \<Rightarrow> sys \<Rightarrow> string \<Rightarrow> sys \<times> error option" where
  "WithRBDCommandInput w s namespace =
    (if \<not> allow (allowedNamespaces s) namespace then (s, Some (NotAllowedNamespace namespace))
     else
       let s1 = s\<lparr>calls := calls s @ [SecretGet namespace ''rook-ceph-mon'']\<rparr> in
       case secrets_get w (calls s) namespace ''rook-ceph-mon'' of
         Inl err \<Rightarrow> (s1, Some (SecretLookupError namespace err))
       | Inr secret \<Rightarrow>
          (case secret ''ceph-secret'' of
             None \<Rightarrow> (s1, Some (SecretFieldMissing namespace))
           | Some k \<Rightarrow>
              let s2 = s1\<lparr>calls := calls s1 @ [ConfigMapGet namespace ''rook-ceph-csi-config'']\<rparr> in
              case configmaps_get w (calls s1) namespace ''rook-ceph-csi-config'' of
                Inl err \<Rightarrow> (s2, Some (ConfigLookupError namespace err))
              | Inr configmap \<Rightarrow>
                 (case configmap ''csi-cluster-config-json'' of
                    None \<Rightarrow> (s2, Some (ConfigFieldMissing namespace))
                  | Some data \<Rightarrow>
                     (case unmarshal_clusterConfig w data of
                        Inl err \<Rightarrow> (s2, Some (ConfigParseError namespace err))
                      | Inr clusterConfig \<Rightarrow>
                         if length clusterConfig = 0
                         then (s2, Some (NoClusterConfig namespace))
                         else if length (Monitors (clusterConfig ! 0)) = 0
                         then (s2, Some (NoMonitors namespace))
                         else
                           let input = \<lparr>monitor = Monitors (clusterConfig ! 0) ! 0,
                                        id' = ''admin'', key = k\<rparr>
                           in (s2\<lparr>rbdCommandInput := (rbdCommandInput s2)(namespace \<mapsto> input)\<rparr>,
                               None)))))"

text \<open>The guard that Add (line 217) and Resync (line 297) both put before the fetch:
  \<^verbatim>\<open>if _, ok := s.rbdCommandInput[ns]; !ok { err := s.WithRBDCommandInput(ns) ... }\<close>.
  A namespace that has an entry is not looked up again.\<close>

definition ensure_rbdCommandInput :: "world \<Rightarrow> sys \<Rightarrow> string \<Rightarrow> sys \<times> error option" where
  "ensure_rbdCommandInput w s namespace =
    (case rbdCommandInput s namespace of
       None \<Rightarrow> WithRBDCommandInput w s namespace
     | Some _ \<Rightarrow> (s, None))"

subsection \<open>rbdImageStatus\<close>

text \<open>\<^verbatim>\<open>execCommand\<close> makes one attempt to run the command; the entry it adds to the history
  says whether the attempt started a process.\<close>

definition execCommand ::
  "world \<Rightarrow> ext_call list \<Rightarrow> string \<Rightarrow> string list \<Rightarrow> ext_call list \<times> string \<times> ext_error option"
where
  "execCommand w h command args =
    (case combined_output w h command args of
       StartFailed err \<Rightarrow> (h @ [Exec command args False], [], Some err)
     | Ran out err \<Rightarrow> (h @ [Exec command args True], out, err))"

definition rbd_args :: "rbdCommandInput \<Rightarrow> string \<Rightarrow> string list" where
  "rbd_args inp poolName =
     [''mirror'', ''pool'', ''status'', poolName, ''--verbose'', ''--format'', ''json'',
      ''-m'', monitor inp, ''--id'', id' inp, ''--key'', key inp, ''--debug-rbd'', ''0'']"

text \<open>The result is Go's pair: the status and the error, the history of external calls
  in front.\<close>

definition rbdImageStatus ::
  "world \<Rightarrow> ext_call list \<Rightarrow> rbdCommandInput \<Rightarrow> string
     \<Rightarrow> ext_call list \<times> RBDMirrorStatusVerbose \<times> error option"
where
  "rbdImageStatus w h inp poolName =
    (if monitor inp = [] \<and> id' inp = [] \<and> key inp = []
     then (h, zero_RBDMirrorStatusVerbose, Some IncompleteCredentials)
     else
       case execCommand w h ''rbd'' (rbd_args inp poolName) of
         (h1, cmd, Some err) \<Rightarrow> (h1, zero_RBDMirrorStatusVerbose, Some (CommandExecutionError err))
       | (h1, cmd, None) \<Rightarrow>
          (case unmarshal_status w cmd of
             (st, err) \<Rightarrow> (h1, st, map_option ResponseParseError err)))"

subsection \<open>Add, Update, Delete\<close>

definition Add :: "world \<Rightarrow> sys \<Rightarrow> obj \<Rightarrow> (sys \<times> error option) outcome" where
  "Add w s ob =
    (case meta_Accessor ob of
       Inl err \<Rightarrow> Returns (s, Some err)
     | Inr o' \<Rightarrow>
        (case ob of
           PoolObj pool \<Rightarrow>
             if \<not> Spec_Mirroring_Enabled pool
             then Returns (klog_write (Info_skipping_disabled (Namespace (Meta pool))
                                         (Name (Meta pool))) s, None)
             else
               (case ensure_rbdCommandInput w s (Namespace (Meta pool)) of
                  (s1, Some err) \<Rightarrow>
                    Returns (klog_write (Error_init_failed (Namespace (Meta pool))
                                           (Name (Meta pool)) err) s1,
                             Some (RbdCommandErrorForPool (Namespace (Meta pool))
                                     (Name (Meta pool)) err))
                | (s1, None) \<Rightarrow>
                   (case rbdCommandInput s1 (Namespace (Meta pool)) of
                      None \<Rightarrow> Panics NilPointerDereference
                    | Some inp \<Rightarrow>
                       (case rbdImageStatus w (calls s1) inp (Name (Meta pool)) of
                          (h, mirrorStatus, Some err) \<Rightarrow>
                            Returns (s1\<lparr>calls := h\<rparr>, Some (RbdCommandError err))
                        | (h, mirrorStatus, None) \<Rightarrow>
                           (case GetUID o' of
                              Panics p \<Rightarrow> Panics p
                            | Returns uid \<Rightarrow>
                                Returns (Mutex_Unlock
                                          (Store_put uid
                                             \<lparr>PoolName = Name (Meta pool),
                                              PoolNamespace = Namespace (Meta pool),
                                              MirrorStatus = mirrorStatus\<rparr>
                                             (Mutex_Lock (s1\<lparr>calls := h\<rparr>))),
                                         None)))))
         | NilPoolObj \<Rightarrow> Panics NilPointerDereference
         | _ \<Rightarrow> Returns (s, Some (UnexpectedType (type_name ob)))))"

definition Update :: "world \<Rightarrow> sys \<Rightarrow> obj \<Rightarrow> (sys \<times> error option) outcome" where
  "Update w s ob = Add w s ob"

text \<open>In Delete the identity is read inside the call of \<^verbatim>\<open>delete\<close>, after the lock is
  taken.\<close>

definition Delete :: "sys \<Rightarrow> obj \<Rightarrow> (sys \<times> error option) outcome" where
  "Delete s ob =
    (case meta_Accessor ob of
       Inl err \<Rightarrow> Returns (s, Some err)
     | Inr o' \<Rightarrow>
        (case GetUID o' of
           Panics p \<Rightarrow> Panics p
         | Returns uid \<Rightarrow> Returns (Mutex_Unlock (Store_delete uid (Mutex_Lock s)), None)))"

subsection \<open>Replace\<close>



subsection \<open>Resync\<close>

text \<open>The body of the loop for one key and the value \<^verbatim>\<open>range\<close> produced for it;
  \<^verbatim>\<open>continue\<close> ends the body after the error is logged.\<close>

definition Resync_body ::
  "world \<Rightarrow> sys \<Rightarrow> UID \<Rightarrow> RBDMirrorPoolStatusVerbose \<Rightarrow> sys outcome"
where
  "Resync_body w s poolUUID poolStatusVerbose =
    (case ensure_rbdCommandInput w s (PoolNamespace poolStatusVerbose) of
       (s1, Some err) \<Rightarrow>
         Returns (klog_write (Error_init_failed (PoolNamespace poolStatusVerbose)
                                (PoolName poolStatusVerbose) err) s1)
     | (s1, None) \<Rightarrow>
        (case rbdCommandInput s1 (PoolNamespace poolStatusVerbose) of
           None \<Rightarrow> Panics NilPointerDereference
         | Some inp \<Rightarrow>
            (case rbdImageStatus w (calls s1) inp (PoolName poolStatusVerbose) of
               (h, mirrorStatus, Some err) \<Rightarrow>
                 Returns (klog_write (Error_rbd_command err) (s1\<lparr>calls := h\<rparr>))
             | (h, mirrorStatus, None) \<Rightarrow>
                 Returns (Store_put poolUUID
                            \<lparr>PoolName = PoolName poolStatusVerbose,
                             PoolNamespace = PoolNamespace poolStatusVerbose,
                             MirrorStatus = mirrorStatus\<rparr>
                            (s1\<lparr>calls := h\<rparr>)))))"

text \<open>\<^verbatim>\<open>for poolUUID, poolStatusVerbose := range s.Store\<close>. Go fixes no order for the keys of
  a map, so the order is an argument; a key is visited with the value the map holds when
  its turn comes, and a key the map does not hold is not visited.\<close>

fun Resync_loop :: "world \<Rightarrow> sys \<Rightarrow> UID list \<Rightarrow> sys outcome" where
  "Resync_loop w s [] = Returns s"
| "Resync_loop w s (poolUUID # rest) =
    (case Store s poolUUID of
       None \<Rightarrow> Resync_loop w s rest
     | Some poolStatusVerbose \<Rightarrow>
        (case Resync_body w s poolUUID poolStatusVerbose of
           Panics p \<Rightarrow> Panics p
         | Returns s' \<Rightarrow> Resync_loop w s' rest))"

definition Resync :: "world \<Rightarrow> UID list \<Rightarrow> sys \<Rightarrow> (sys \<times> error option) outcome" where
  "Resync w order s =
    (case Resync_loop w (Mutex_Lock (klog_write Info_resync_started s)) order of
       Panics p \<Rightarrow> Panics p
     | Returns s' \<Rightarrow> Returns (Mutex_Unlock (klog_write Info_resync_ended s'), None))"

subsection \<open>Construction\<close>

text \<open>\<^verbatim>\<open>NewRBDMirrorStore\<close>: two empty maps and the allow-list of the options. The files
  that \<^verbatim>\<open>writeCephConfig\<close> creates before are not part of the store.\<close>

definition NewRBDMirrorStore :: "string list \<Rightarrow> sys" where
  "NewRBDMirrorStore allowed =
     \<lparr>Store = Map.empty, rbdCommandInput = Map.empty, allowedNamespaces = allowed,
      calls = [], klog = [], events = []\<rparr>"

text \<open>The two lookups through the Kubernetes client, as opposed to the spawned process.\<close>

fun is_lookup :: "ext_call \<Rightarrow> bool" where
  "is_lookup (SecretGet namespace name) = True"
| "is_lookup (ConfigMapGet namespace name) = True"
| "is_lookup (Exec command args started) = False"

text \<open>The processes started by the calls of a history.\<close>

fun is_spawn :: "ext_call \<Rightarrow> bool" where
  "is_spawn (SecretGet namespace name) = False"
| "is_spawn (ConfigMapGet namespace name) = False"
| "is_spawn (Exec command args started) = started"

definition processes_spawned :: "ext_call list \<Rightarrow> nat" where
  "processes_spawned h = length (filter is_spawn h)"

subsection \<open>A concrete cluster\<close>

text \<open>Namespace \<open>ns1\<close> holds the secret and the configmap of the specification's example.
  Namespace \<open>ns3\<close> has a configmap whose field does not decode, \<open>ns4\<close> one that decodes
  to no record, \<open>ns5\<close> one whose first record has no monitor, and \<open>ns6\<close> one with two
  records, the first with two monitors. The status command starts and answers for every
  pool but \<open>pool2\<close>, for which it exits with an error.\<close>

definition ex_allowed :: "string list" where
  "ex_allowed = [''ns1'', ''ns3'', ''ns4'', ''ns5'', ''ns6'']"

definition ex_secret :: "string \<rightharpoonup> string" where
  "ex_secret = [''ceph-secret'' \<mapsto> ''AQABCDEF=='']"

definition ex_json :: string where
  \<open>ex_json = ''[{"clusterID":"c1","monitors":["10.0.0.1:6789"]}]''\<close>

definition ex_json2 :: string where
  \<open>ex_json2 = ''[{"clusterID":"c1","monitors":["10.0.0.1:6789","10.0.0.2:6789"]},{"clusterID":"c2","monitors":["10.0.0.9:6789"]}]''\<close>

definition ex_config_json :: "string \<Rightarrow> string" where
  "ex_config_json namespace =
     (if namespace = ''ns1'' then ex_json
      else if namespace = ''ns3'' then ''{''
      else if namespace = ''ns4'' then ''[]''
      else if namespace = ''ns5'' then ''[{}]''
      else ex_json2)"

definition ex_configmap :: "string \<Rightarrow> (string \<rightharpoonup> string)" where
  "ex_configmap namespace = [''csi-cluster-config-json'' \<mapsto> ex_config_json namespace]"

definition ex_status :: RBDMirrorStatusVerbose where
  "ex_status = zero_RBDMirrorStatusVerbose
     \<lparr>Summary := \<lparr>Health = ''OK'', DaemonHealth = ''OK'', ImageHealth = ''OK'',
        States = States (Summary zero_RBDMirrorStatusVerbose)\<rparr>\<rparr>"

definition ex_world :: world where
  "ex_world =
    \<lparr>secrets_get = (\<lambda>h namespace name.
        if name = ''rook-ceph-mon'' \<and> namespace \<in> set ex_allowed
        then Inr ex_secret
        else Inl ''secrets not found''),
      configmaps_get = (\<lambda>h namespace name.
        if name = ''rook-ceph-csi-config'' \<and> namespace \<in> set ex_allowed
        then Inr (ex_configmap namespace)
        else Inl ''configmaps not found''),
      combined_output = (\<lambda>h command args.
        if ''pool2'' \<in> set args then Ran ''rbd: error opening pool'' (Some ''exit status 2'')
        else Ran ''{status}'' None),
      unmarshal_clusterConfig = (\<lambda>data.
        if data = ex_json
        then Inr [\<lparr>ClusterID = ''c1'', Monitors = [''10.0.0.1:6789'']\<rparr>]
        else if data = ex_json2
        then Inr [\<lparr>ClusterID = ''c1'', Monitors = [''10.0.0.1:6789'', ''10.0.0.2:6789'']\<rparr>,
                  \<lparr>ClusterID = ''c2'', Monitors = [''10.0.0.9:6789'']\<rparr>]
        else if data = ''[]'' then Inr []
        else if data = ''[{}]'' then Inr [\<lparr>ClusterID = [], Monitors = []\<rparr>]
        else Inl ''unexpected end of JSON input''),
      unmarshal_status = (\<lambda>out.
        if out = ''{status}'' then (ex_status, None)
        else (zero_RBDMirrorStatusVerbose, Some ''invalid character''))\<rparr>"

definition ex_pool :: "string \<Rightarrow> string \<Rightarrow> UID \<Rightarrow> bool \<Rightarrow> CephBlockPool" where
  "ex_pool name namespace uid enabled =
     \<lparr>Meta = \<lparr>Name = name, Namespace = namespace, UID = uid\<rparr>,
      Spec_Mirroring_Enabled = enabled\<rparr>"

definition ex_input :: rbdCommandInput where
  "ex_input = \<lparr>monitor = ''10.0.0.1:6789'', id' = ''admin'', key = ''AQABCDEF==''\<rparr>"

definition ex_record :: "string \<Rightarrow> RBDMirrorStatusVerbose \<Rightarrow> RBDMirrorPoolStatusVerbose" where
  "ex_record name st = \<lparr>PoolName = name, PoolNamespace = ''ns1'', MirrorStatus = st\<rparr>"

text \<open>A store that holds two pools of \<open>ns1\<close> with an old status, the namespace resolved.\<close>

definition ex_populated :: sys where
  "ex_populated =
     \<lparr>Store = [''u1'' \<mapsto> ex_record ''pool1'' zero_RBDMirrorStatusVerbose,
               ''u2'' \<mapsto> ex_record ''pool2'' zero_RBDMirrorStatusVerbose],
      rbdCommandInput = [''ns1'' \<mapsto> ex_input],
      allowedNamespaces = ex_allowed,
      calls = [], klog = [], events = []\<rparr>"

text \<open>The same cluster seen from a container without the \<^verbatim>\<open>rbd\<close> executable: no command
  can be started.\<close>

definition ex_world_no_rbd :: world where
  "ex_world_no_rbd =
     ex_world\<lparr>combined_output := (\<lambda>h command args.
        StartFailed ''executable file not found in $PATH'')\<rparr>"

section \<open>Auxiliary facts\<close>

subsection \<open>Resolving the command input of a namespace\<close>

lemmas store_op_defs =
  klog_write_def Mutex_Lock_def Mutex_Unlock_def Store_put_def Store_delete_def Store_clear_def

lemma allow_iff: "allow xs namespace \<longleftrightarrow> namespace \<in> set xs"
  by (induction xs) auto

lemma WithRBDCommandInput_frame:
  "WithRBDCommandInput w s ns = (s', r) \<Longrightarrow>
     Store s' = Store s \<and> allowedNamespaces s' = allowedNamespaces s \<and> klog s' = klog s
     \<and> events s' = events s"
  by (auto simp: WithRBDCommandInput_def Let_def split: if_splits sum.splits option.splits)

lemma WithRBDCommandInput_error:
  "WithRBDCommandInput w s ns = (s', Some e) \<Longrightarrow> rbdCommandInput s' = rbdCommandInput s"
  by (auto simp: WithRBDCommandInput_def Let_def split: if_splits sum.splits option.splits)

lemma WithRBDCommandInput_success:
  "WithRBDCommandInput w s ns = (s', None) \<Longrightarrow>
     \<exists>inp. rbdCommandInput s' = (rbdCommandInput s)(ns \<mapsto> inp)"
  by (auto simp: WithRBDCommandInput_def Let_def split: if_splits sum.splits option.splits)

lemma WithRBDCommandInput_first_call:
  "namespace \<in> set (allowedNamespaces s) \<Longrightarrow>
     \<exists>rest. calls (fst (WithRBDCommandInput w s namespace))
            = calls s @ SecretGet namespace ''rook-ceph-mon'' # rest"
  by (auto simp: WithRBDCommandInput_def Let_def allow_iff split: sum.splits option.splits)

lemma WithRBDCommandInput_resolved:
  assumes "namespace \<in> set (allowedNamespaces s)"
    and "secrets_get w (calls s) namespace ''rook-ceph-mon'' = Inr secret"
    and "secret ''ceph-secret'' = Some k"
    and "configmaps_get w (calls s @ [SecretGet namespace ''rook-ceph-mon''])
           namespace ''rook-ceph-csi-config'' = Inr configmap"
    and "configmap ''csi-cluster-config-json'' = Some data"
  shows "WithRBDCommandInput w s namespace =
    (case unmarshal_clusterConfig w data of
       Inl err \<Rightarrow>
         (s\<lparr>calls := calls s @ [SecretGet namespace ''rook-ceph-mon'',
                                 ConfigMapGet namespace ''rook-ceph-csi-config'']\<rparr>,
          Some (ConfigParseError namespace err))
     | Inr [] \<Rightarrow>
         (s\<lparr>calls := calls s @ [SecretGet namespace ''rook-ceph-mon'',
                                 ConfigMapGet namespace ''rook-ceph-csi-config'']\<rparr>,
          Some (NoClusterConfig namespace))
     | Inr (c # cs) \<Rightarrow>
         (case Monitors c of
            [] \<Rightarrow>
              (s\<lparr>calls := calls s @ [SecretGet namespace ''rook-ceph-mon'',
                                      ConfigMapGet namespace ''rook-ceph-csi-config'']\<rparr>,
               Some (NoMonitors namespace))
          | m # ms \<Rightarrow>
              (s\<lparr>rbdCommandInput := (rbdCommandInput s)(namespace \<mapsto>
                    \<lparr>monitor = m, id' = ''admin'', key = k\<rparr>),
                 calls := calls s @ [SecretGet namespace ''rook-ceph-mon'',
                                      ConfigMapGet namespace ''rook-ceph-csi-config'']\<rparr>,
               None)))"
  using assms
  by (simp add: WithRBDCommandInput_def Let_def allow_iff split: sum.splits list.splits)

lemma ensure_frame:
  "ensure_rbdCommandInput w s ns = (s', r) \<Longrightarrow>
     Store s' = Store s \<and> allowedNamespaces s' = allowedNamespaces s \<and> klog s' = klog s
     \<and> events s' = events s"
  by (auto simp: ensure_rbdCommandInput_def split: option.splits dest: WithRBDCommandInput_frame)

lemma ensure_error:
  "ensure_rbdCommandInput w s ns = (s', Some e) \<Longrightarrow> rbdCommandInput s' = rbdCommandInput s"
  by (auto simp: ensure_rbdCommandInput_def split: option.splits dest: WithRBDCommandInput_error)

lemma ensure_success:
  "ensure_rbdCommandInput w s ns = (s', None) \<Longrightarrow> \<exists>inp. rbdCommandInput s' ns = Some inp"
  by (auto simp: ensure_rbdCommandInput_def split: option.splits dest: WithRBDCommandInput_success)

lemma ensure_cached:
  "rbdCommandInput s ns = Some inp \<Longrightarrow> ensure_rbdCommandInput w s ns = (s, None)"
  by (simp add: ensure_rbdCommandInput_def)

lemma execCommand_calls:
  "fst (execCommand w h command args) = h @ [Exec command args (starts w h command args)]"
  by (simp add: execCommand_def starts_def split: proc_result.splits)

lemma execCommand_start_failed:
  "combined_output w h command args = StartFailed err \<Longrightarrow>
     execCommand w h command args = (h @ [Exec command args False], [], Some err)"
  by (simp add: execCommand_def)

lemma rbdImageStatus_calls:
  "fst (rbdImageStatus w h inp poolName) =
     (if monitor inp = [] \<and> id' inp = [] \<and> key inp = [] then h
      else h @ [Exec ''rbd'' (rbd_args inp poolName)
                  (starts w h ''rbd'' (rbd_args inp poolName))])"
proof (cases "execCommand w h ''rbd'' (rbd_args inp poolName)")
  case (fields h1 cmd err)
  then have "h1 = h @ [Exec ''rbd'' (rbd_args inp poolName)
                         (starts w h ''rbd'' (rbd_args inp poolName))]"
    using execCommand_calls [of w h "''rbd''" "rbd_args inp poolName"] by simp
  with fields show ?thesis
    by (simp add: rbdImageStatus_def split: prod.splits option.splits)
qed

subsection \<open>Add returns, and what it leaves alone\<close>


lemma Add_returns: "ob \<noteq> NilPoolObj \<Longrightarrow> \<exists>s' r. Add w s ob = Returns (s', r)"
proof (cases ob)
  case (PoolObj pool)
  show ?thesis
  proof (cases "ensure_rbdCommandInput w s (Namespace (Meta pool))")
    case (Pair s1 r)
    show ?thesis
    proof (cases r)
      case None
      with Pair obtain inp where "rbdCommandInput s1 (Namespace (Meta pool)) = Some inp"
        using ensure_success by blast
      with PoolObj Pair None show ?thesis
        by (auto simp: Add_def split: prod.splits option.splits)
    next
      case (Some e)
      with PoolObj Pair show ?thesis by (simp add: Add_def)
    qed
  qed
qed (simp_all add: Add_def)


lemma Add_cached_calls:
  assumes "rbdCommandInput s (Namespace (Meta pool)) = Some inp"
  shows "\<exists>s' r. Add w s (PoolObj pool) = Returns (s', r)
           \<and> rbdCommandInput s' = rbdCommandInput s
           \<and> filter is_lookup (calls s') = filter is_lookup (calls s)"
proof (cases "Spec_Mirroring_Enabled pool")
  case False
  then show ?thesis by (simp add: Add_def klog_write_def)
next
  case True
  obtain h st r where f: "rbdImageStatus w (calls s) inp (Name (Meta pool)) = (h, st, r)"
    by (cases "rbdImageStatus w (calls s) inp (Name (Meta pool))") auto
  have "h = fst (rbdImageStatus w (calls s) inp (Name (Meta pool)))" using f by simp
  then have h: "filter is_lookup h = filter is_lookup (calls s)"
    by (simp add: rbdImageStatus_calls)
  show ?thesis using True assms f h
    by (cases r) (simp_all add: Add_def ensure_cached store_op_defs)
qed

subsection \<open>The sweep of Resync\<close>

lemma record_new_status:
  "\<lparr>PoolName = PoolName v, PoolNamespace = PoolNamespace v, MirrorStatus = st\<rparr>
     = v\<lparr>MirrorStatus := st\<rparr>"
  by (cases v) simp

lemma Resync_body_cases:
  "\<exists>s'. Resync_body w s k v = Returns s'
     \<and> (\<exists>ls. klog s' = klog s @ ls)
     \<and> (Store s' = Store s
         \<or> (\<exists>st. Store s' = (Store s)(k \<mapsto> v\<lparr>MirrorStatus := st\<rparr>)))"
proof (cases "ensure_rbdCommandInput w s (PoolNamespace v)")
  case (Pair s1 r)
  then have f: "Store s1 = Store s" "klog s1 = klog s" using ensure_frame by blast+
  show ?thesis
  proof (cases r)
    case (Some e)
    with Pair f show ?thesis by (simp add: Resync_body_def klog_write_def)
  next
    case None
    with Pair obtain inp where i: "rbdCommandInput s1 (PoolNamespace v) = Some inp"
      using ensure_success by blast
    obtain h st r' where "rbdImageStatus w (calls s1) inp (PoolName v) = (h, st, r')"
      by (cases "rbdImageStatus w (calls s1) inp (PoolName v)") auto
    with Pair None i f show ?thesis
      by (cases r') (auto simp: Resync_body_def store_op_defs record_new_status)
  qed
qed

lemma Resync_body_other:
  "Resync_body w s k v = Returns s' \<Longrightarrow> uid \<noteq> k \<Longrightarrow> Store s' uid = Store s uid"
  using Resync_body_cases [of w s k v] by auto

lemma Resync_loop_returns: "\<exists>s'. Resync_loop w s ks = Returns s'"
proof (induction ks arbitrary: s)
  case Nil
  show ?case by simp
next
  case (Cons k ks)
  show ?case
  proof (cases "Store s k")
    case None
    then show ?thesis using Cons.IH [of s] by simp
  next
    case (Some v)
    obtain s1 where "Resync_body w s k v = Returns s1" using Resync_body_cases by blast
    with Some show ?thesis using Cons.IH [of s1] by simp
  qed
qed

lemma Resync_loop_append:
  "Resync_loop w s (xs @ ys) =
     (case Resync_loop w s xs of Panics p \<Rightarrow> Panics p | Returns s' \<Rightarrow> Resync_loop w s' ys)"
  by (induction xs arbitrary: s) (auto split: option.splits outcome.splits)

lemma Resync_loop_klog:
  "Resync_loop w s ks = Returns s' \<Longrightarrow> \<exists>ls. klog s' = klog s @ ls"
proof (induction ks arbitrary: s)
  case Nil
  then show ?case by simp
next
  case (Cons k ks)
  show ?case
  proof (cases "Store s k")
    case None
    with Cons show ?thesis by simp
  next
    case (Some v)
    obtain s1 ls where b: "Resync_body w s k v = Returns s1" "klog s1 = klog s @ ls"
      using Resync_body_cases [of w s k v] by blast
    with Some Cons.prems have "Resync_loop w s1 ks = Returns s'" by simp
    then obtain ls' where "klog s' = klog s1 @ ls'" using Cons.IH by blast
    with b show ?thesis by simp
  qed
qed

lemma Resync_loop_other:
  "Resync_loop w s ks = Returns s' \<Longrightarrow> uid \<notin> set ks \<Longrightarrow> Store s' uid = Store s uid"
proof (induction ks arbitrary: s)
  case Nil
  then show ?case by simp
next
  case (Cons k ks)
  show ?case
  proof (cases "Store s k")
    case None
    with Cons show ?thesis by simp
  next
    case (Some v)
    obtain s1 where b: "Resync_body w s k v = Returns s1"
      using Resync_body_cases [of w s k v] by blast
    with Some Cons.prems have "Resync_loop w s1 ks = Returns s'" by simp
    with Cons have "Store s' uid = Store s1 uid" by simp
    moreover have "Store s1 uid = Store s uid"
      using Resync_body_other [OF b, of uid] Cons.prems by simp
    ultimately show ?thesis by simp
  qed
qed

text \<open>What a sweep may do to one entry: nothing, or a new status under the old names.\<close>

lemma Resync_loop_entry:
  "Resync_loop w s ks = Returns s' \<Longrightarrow>
     (case Store s uid of
        None \<Rightarrow> Store s' uid = None
      | Some v \<Rightarrow> \<exists>st. Store s' uid = Some (v\<lparr>MirrorStatus := st\<rparr>))"
proof (induction ks arbitrary: s)
  case Nil
  then have eq: "s' = s" by simp
  show ?case
  proof (cases "Store s uid")
    case None
    with eq show ?thesis by simp
  next
    case (Some v)
    have "\<exists>st. v = v\<lparr>MirrorStatus := st\<rparr>"
      by (rule exI [of _ "MirrorStatus v"]) simp
    with eq Some show ?thesis by simp
  qed
next
  case (Cons k ks)
  show ?case
  proof (cases "Store s k")
    case None
    with Cons show ?thesis by simp
  next
    case (Some v)
    obtain s1 where b: "Resync_body w s k v = Returns s1"
      and c: "Store s1 = Store s
         \<or> (\<exists>st. Store s1 = (Store s)(k \<mapsto> v\<lparr>MirrorStatus := st\<rparr>))"
      using Resync_body_cases [of w s k v] by blast
    with Some Cons.prems have "Resync_loop w s1 ks = Returns s'" by simp
    then have ih: "case Store s1 uid of
        None \<Rightarrow> Store s' uid = None
      | Some v \<Rightarrow> \<exists>st. Store s' uid = Some (v\<lparr>MirrorStatus := st\<rparr>)"
      by (rule Cons.IH)
    from c show ?thesis
    proof
      assume "Store s1 = Store s"
      with ih show ?thesis by simp
    next
      assume "\<exists>st. Store s1 = (Store s)(k \<mapsto> v\<lparr>MirrorStatus := st\<rparr>)"
      then obtain st where st: "Store s1 = (Store s)(k \<mapsto> v\<lparr>MirrorStatus := st\<rparr>)"
        by blast
      show ?thesis
      proof (cases "uid = k")
        case True
        with ih st Some show ?thesis by auto
      next
        case False
        with ih st show ?thesis by simp
      qed
    qed
  qed
qed


text \<open>The states of a sweep, one after the other: \<open>ss ! i\<close> is the state in which the turn of
  \<open>order ! i\<close> comes.\<close>

lemma Resync_loop_chain:
  assumes "length ss = Suc (length order)" and "ss ! 0 = s0"
    and "\<forall>i<length order.
           (case Store (ss ! i) (order ! i) of
              None \<Rightarrow> ss ! Suc i = ss ! i
            | Some v \<Rightarrow> Resync_body w (ss ! i) (order ! i) v = Returns (ss ! Suc i))"
  shows "i \<le> length order \<Longrightarrow> Resync_loop w s0 (take i order) = Returns (ss ! i)"
proof (induction i)
  case 0
  with assms(2) show ?case by simp
next
  case (Suc i)
  then have i: "i < length order" by simp
  then have t: "take (Suc i) order = take i order @ [order ! i]"
    by (simp add: take_Suc_conv_app_nth)
  from Suc have ih: "Resync_loop w s0 (take i order) = Returns (ss ! i)" by simp
  from assms(3) i have step: "case Store (ss ! i) (order ! i) of
              None \<Rightarrow> ss ! Suc i = ss ! i
            | Some v \<Rightarrow> Resync_body w (ss ! i) (order ! i) v = Returns (ss ! Suc i)"
    by blast
  show ?case
  proof (cases "Store (ss ! i) (order ! i)")
    case None
    with step ih t show ?thesis by (simp add: Resync_loop_append)
  next
    case (Some v)
    with step ih t show ?thesis by (simp add: Resync_loop_append)
  qed
qed

lemma Resync_chain_exists:
  "\<exists>ss. length ss = Suc (length order) \<and> ss ! 0 = s0
     \<and> (\<forall>i<length order.
           (case Store (ss ! i) (order ! i) of
              None \<Rightarrow> ss ! Suc i = ss ! i
            | Some v \<Rightarrow> Resync_body w (ss ! i) (order ! i) v = Returns (ss ! Suc i)))"
proof (induction order arbitrary: s0)
  case Nil
  show ?case by (rule exI [of _ "[s0]"]) simp
next
  case (Cons k order)
  obtain s1 where s1: "case Store s0 k of None \<Rightarrow> s1 = s0
                       | Some v \<Rightarrow> Resync_body w s0 k v = Returns s1"
  proof (cases "Store s0 k")
    case None
    then show ?thesis using that [of s0] by simp
  next
    case (Some v)
    obtain s' where "Resync_body w s0 k v = Returns s'" using Resync_body_cases by blast
    with Some show ?thesis using that [of s'] by simp
  qed
  from Cons [of s1] obtain ss where ss: "length ss = Suc (length order)" "ss ! 0 = s1"
    "\<forall>i<length order.
           (case Store (ss ! i) (order ! i) of
              None \<Rightarrow> ss ! Suc i = ss ! i
            | Some v \<Rightarrow> Resync_body w (ss ! i) (order ! i) v = Returns (ss ! Suc i))"
    by blast
  have "\<forall>i<length (k # order).
           (case Store ((s0 # ss) ! i) ((k # order) ! i) of
              None \<Rightarrow> (s0 # ss) ! Suc i = (s0 # ss) ! i
            | Some v \<Rightarrow> Resync_body w ((s0 # ss) ! i) ((k # order) ! i) v
                         = Returns ((s0 # ss) ! Suc i))"
  proof (intro allI impI)
    fix i assume "i < length (k # order)"
    show "case Store ((s0 # ss) ! i) ((k # order) ! i) of
              None \<Rightarrow> (s0 # ss) ! Suc i = (s0 # ss) ! i
            | Some v \<Rightarrow> Resync_body w ((s0 # ss) ! i) ((k # order) ! i) v
                         = Returns ((s0 # ss) ! Suc i)"
    proof (cases i)
      case 0
      with s1 ss(2) show ?thesis by (simp split: option.splits)
    next
      case (Suc j)
      with \<open>i < length (k # order)\<close> have "j < length order" by simp
      with ss(3) have "case Store (ss ! j) (order ! j) of
              None \<Rightarrow> ss ! Suc j = ss ! j
            | Some v \<Rightarrow> Resync_body w (ss ! j) (order ! j) v = Returns (ss ! Suc j)"
        by blast
      with Suc show ?thesis by (simp split: option.splits)
    qed
  qed
  with ss(1) show ?case by (intro exI [of _ "s0 # ss"]) simp
qed

subsection \<open>The loop of Replace\<close>









subsection \<open>Facts about the concrete cluster\<close>

lemma ex_secrets_get:
  "namespace \<in> set ex_allowed \<Longrightarrow>
     secrets_get ex_world h namespace ''rook-ceph-mon'' = Inr ex_secret"
  by (simp add: ex_world_def)

lemma ex_configmaps_get:
  "namespace \<in> set ex_allowed \<Longrightarrow>
     configmaps_get ex_world h namespace ''rook-ceph-csi-config'' = Inr (ex_configmap namespace)"
  by (simp add: ex_world_def)

lemma ex_unmarshal:
  "unmarshal_clusterConfig ex_world (ex_config_json ''ns1'')
     = Inr [\<lparr>ClusterID = ''c1'', Monitors = [''10.0.0.1:6789'']\<rparr>]"
  "unmarshal_clusterConfig ex_world (ex_config_json ''ns3'') = Inl ''unexpected end of JSON input''"
  "unmarshal_clusterConfig ex_world (ex_config_json ''ns4'') = Inr []"
  "unmarshal_clusterConfig ex_world (ex_config_json ''ns5'') = Inr [\<lparr>ClusterID = [], Monitors = []\<rparr>]"
  "unmarshal_clusterConfig ex_world (ex_config_json ''ns6'')
     = Inr [\<lparr>ClusterID = ''c1'', Monitors = [''10.0.0.1:6789'', ''10.0.0.2:6789'']\<rparr>,
            \<lparr>ClusterID = ''c2'', Monitors = [''10.0.0.9:6789'']\<rparr>]"
  by (simp_all add: ex_world_def ex_config_json_def ex_json_def ex_json2_def)

lemma ex_populated_fields:
  "rbdCommandInput ex_populated ''ns1'' = Some ex_input"
  "calls ex_populated = []"
  "klog ex_populated = []"
  "events ex_populated = []"
  "Store ex_populated ''u1'' = Some (ex_record ''pool1'' zero_RBDMirrorStatusVerbose)"
  "Store ex_populated ''u2'' = Some (ex_record ''pool2'' zero_RBDMirrorStatusVerbose)"
  by (simp_all add: ex_populated_def)

lemma ex_rbdImageStatus:
  "rbdImageStatus ex_world h ex_input ''pool1''
     = (h @ [Exec ''rbd'' (rbd_args ex_input ''pool1'') True], ex_status, None)"
  "rbdImageStatus ex_world h ex_input ''pool2''
     = (h @ [Exec ''rbd'' (rbd_args ex_input ''pool2'') True], zero_RBDMirrorStatusVerbose,
        Some (CommandExecutionError ''exit status 2''))"
  by (simp_all add: rbdImageStatus_def execCommand_def rbd_args_def ex_world_def ex_input_def)

text \<open>The end-to-end example: a first Add of a mirrored pool on a new store.\<close>

lemma ex_Add_pool1:
  "Add ex_world (NewRBDMirrorStore ex_allowed) (PoolObj (ex_pool ''pool1'' ''ns1'' ''u1'' True))
   = Returns
      (\<lparr>Store = [''u1'' \<mapsto> ex_record ''pool1'' ex_status],
        rbdCommandInput = [''ns1'' \<mapsto> ex_input],
        allowedNamespaces = ex_allowed,
        calls = [SecretGet ''ns1'' ''rook-ceph-mon'', ConfigMapGet ''ns1'' ''rook-ceph-csi-config'',
                 Exec ''rbd'' (rbd_args ex_input ''pool1'') True],
        klog = [],
        events = [MutexLock, StorePut ''u1'', MutexUnlock]\<rparr>, None)"
  by (simp add: Add_def ensure_rbdCommandInput_def WithRBDCommandInput_def rbdImageStatus_def
      execCommand_def rbd_args_def NewRBDMirrorStore_def ex_world_def ex_pool_def ex_allowed_def
      ex_secret_def ex_configmap_def ex_config_json_def ex_input_def ex_record_def Let_def
      store_op_defs)

lemma ex_Resync:
  "Resync ex_world [''u2'', ''u1''] ex_populated
   = Returns
      (\<lparr>Store = [''u1'' \<mapsto> ex_record ''pool1'' ex_status,
                ''u2'' \<mapsto> ex_record ''pool2'' zero_RBDMirrorStatusVerbose],
        rbdCommandInput = [''ns1'' \<mapsto> ex_input],
        allowedNamespaces = ex_allowed,
        calls = [Exec ''rbd'' (rbd_args ex_input ''pool2'') True,
                 Exec ''rbd'' (rbd_args ex_input ''pool1'') True],
        klog = [Info_resync_started, Error_rbd_command (CommandExecutionError ''exit status 2''),
                Info_resync_ended],
        events = [MutexLock, StorePut ''u1'', MutexUnlock]\<rparr>, None)"
  by (simp add: Resync_def Resync_body_def ensure_rbdCommandInput_def rbdImageStatus_def
      execCommand_def rbd_args_def ex_world_def ex_populated_def ex_input_def ex_record_def
      store_op_defs fun_upd_twist)


section \<open>The claims\<close>

subsection \<open>Replace: the first failing Add ends the call\<close>



subsection \<open>Resync: a failed entry keeps its record\<close>

text \<open>
  Claim C2. Resync returns without an error, for every store, world and order of the keys.
  One turn of the sweep, for a key \<open>k\<close> with the record \<open>v\<close>, does one of three things: if
  resolving the command input of the record's namespace fails, it logs that error and writes
  nothing; if the fetch of the status fails, it logs that error and writes nothing; if the
  fetch succeeds, it puts \<open>v\<close> with the fetched status under \<open>k\<close>. Let \<open>ss\<close> be the states of
  the sweep, one after the other from the locked state on: \<open>ss ! i\<close> is the state in which
  the turn of \<open>order ! i\<close> comes, a key without a record being passed over. Such states
  exist, and Resync returns the last of them, the end logged and the mutex unlocked. For every
  position \<open>i\<close> whose key has the record \<open>v\<close> when its turn comes (the record it had before
  the sweep, if the key did not come up earlier) and does not come up again: if the
  resolution or the fetch fails in \<open>ss ! i\<close>, the record after the sweep is still \<open>v\<close> and
  the error is in the log, wherever in the order the key stands; if the fetch succeeds, the
  record after the sweep is \<open>v\<close> with the fetched status.
\<close>

theorem Resync_tolerates_failures:
  "(\<exists>sf. Resync w order s = Returns (sf, None))
   \<and> (\<forall>sk k v.
        (\<forall>s1 e. ensure_rbdCommandInput w sk (PoolNamespace v) = (s1, Some e) \<longrightarrow>
           Resync_body w sk k v
             = Returns (klog_write (Error_init_failed (PoolNamespace v) (PoolName v) e) s1))
        \<and> (\<forall>s1 inp h st e. ensure_rbdCommandInput w sk (PoolNamespace v) = (s1, None)
              \<and> rbdCommandInput s1 (PoolNamespace v) = Some inp
              \<and> rbdImageStatus w (calls s1) inp (PoolName v) = (h, st, Some e) \<longrightarrow>
           Resync_body w sk k v = Returns (klog_write (Error_rbd_command e) (s1\<lparr>calls := h\<rparr>)))
        \<and> (\<forall>s1 inp h st. ensure_rbdCommandInput w sk (PoolNamespace v) = (s1, None)
              \<and> rbdCommandInput s1 (PoolNamespace v) = Some inp
              \<and> rbdImageStatus w (calls s1) inp (PoolName v) = (h, st, None) \<longrightarrow>
           Resync_body w sk k v
             = Returns (Store_put k (v\<lparr>MirrorStatus := st\<rparr>) (s1\<lparr>calls := h\<rparr>))))
   \<and> (\<exists>ss. length ss = Suc (length order)
        \<and> ss ! 0 = Mutex_Lock (klog_write Info_resync_started s)
        \<and> (\<forall>i<length order.
              (case Store (ss ! i) (order ! i) of
                 None \<Rightarrow> ss ! Suc i = ss ! i
               | Some v \<Rightarrow> Resync_body w (ss ! i) (order ! i) v = Returns (ss ! Suc i))))
   \<and> (\<forall>ss. length ss = Suc (length order)
        \<and> ss ! 0 = Mutex_Lock (klog_write Info_resync_started s)
        \<and> (\<forall>i<length order.
              (case Store (ss ! i) (order ! i) of
                 None \<Rightarrow> ss ! Suc i = ss ! i
               | Some v \<Rightarrow> Resync_body w (ss ! i) (order ! i) v = Returns (ss ! Suc i))) \<longrightarrow>
        (\<exists>sf. sf = Mutex_Unlock (klog_write Info_resync_ended (last ss))
           \<and> Resync w order s = Returns (sf, None)
           \<and> (\<forall>i v. i < length order \<and> order ! i \<notin> set (drop (Suc i) order)
                 \<and> Store (ss ! i) (order ! i) = Some v \<longrightarrow>
                 (order ! i \<notin> set (take i order) \<longrightarrow> Store s (order ! i) = Some v)
                 \<and> (\<forall>s1 e. ensure_rbdCommandInput w (ss ! i) (PoolNamespace v) = (s1, Some e) \<longrightarrow>
                       Store sf (order ! i) = Some v
                       \<and> Error_init_failed (PoolNamespace v) (PoolName v) e \<in> set (klog sf))
                 \<and> (\<forall>s1 inp h st e.
                       ensure_rbdCommandInput w (ss ! i) (PoolNamespace v) = (s1, None)
                       \<and> rbdCommandInput s1 (PoolNamespace v) = Some inp
                       \<and> rbdImageStatus w (calls s1) inp (PoolName v) = (h, st, Some e) \<longrightarrow>
                       Store sf (order ! i) = Some v \<and> Error_rbd_command e \<in> set (klog sf))
                 \<and> (\<forall>s1 inp h st.
                       ensure_rbdCommandInput w (ss ! i) (PoolNamespace v) = (s1, None)
                       \<and> rbdCommandInput s1 (PoolNamespace v) = Some inp
                       \<and> rbdImageStatus w (calls s1) inp (PoolName v) = (h, st, None) \<longrightarrow>
                       Store sf (order ! i) = Some (v\<lparr>MirrorStatus := st\<rparr>)))))"
proof -
  let ?s0 = "Mutex_Lock (klog_write Info_resync_started s)"
  have never: "\<exists>sf. Resync w order s = Returns (sf, None)"
  proof -
    obtain s1 where "Resync_loop w ?s0 order = Returns s1"
      using Resync_loop_returns by blast
    then show ?thesis by (simp add: Resync_def)
  qed
  have body: "(\<forall>s1 e. ensure_rbdCommandInput w sk (PoolNamespace v) = (s1, Some e) \<longrightarrow>
           Resync_body w sk k v
             = Returns (klog_write (Error_init_failed (PoolNamespace v) (PoolName v) e) s1))
        \<and> (\<forall>s1 inp h st e. ensure_rbdCommandInput w sk (PoolNamespace v) = (s1, None)
              \<and> rbdCommandInput s1 (PoolNamespace v) = Some inp
              \<and> rbdImageStatus w (calls s1) inp (PoolName v) = (h, st, Some e) \<longrightarrow>
           Resync_body w sk k v = Returns (klog_write (Error_rbd_command e) (s1\<lparr>calls := h\<rparr>)))
        \<and> (\<forall>s1 inp h st. ensure_rbdCommandInput w sk (PoolNamespace v) = (s1, None)
              \<and> rbdCommandInput s1 (PoolNamespace v) = Some inp
              \<and> rbdImageStatus w (calls s1) inp (PoolName v) = (h, st, None) \<longrightarrow>
           Resync_body w sk k v
             = Returns (Store_put k (v\<lparr>MirrorStatus := st\<rparr>) (s1\<lparr>calls := h\<rparr>)))"
    for sk k v
    by (simp add: Resync_body_def record_new_status)
  have exists: "\<exists>ss. length ss = Suc (length order) \<and> ss ! 0 = ?s0
        \<and> (\<forall>i<length order.
              (case Store (ss ! i) (order ! i) of
                 None \<Rightarrow> ss ! Suc i = ss ! i
               | Some v \<Rightarrow> Resync_body w (ss ! i) (order ! i) v = Returns (ss ! Suc i)))"
    by (rule Resync_chain_exists)
  have sweep: "\<exists>sf. sf = Mutex_Unlock (klog_write Info_resync_ended (last ss))
           \<and> Resync w order s = Returns (sf, None)
           \<and> (\<forall>i v. i < length order \<and> order ! i \<notin> set (drop (Suc i) order)
                 \<and> Store (ss ! i) (order ! i) = Some v \<longrightarrow>
                 (order ! i \<notin> set (take i order) \<longrightarrow> Store s (order ! i) = Some v)
                 \<and> (\<forall>s1 e. ensure_rbdCommandInput w (ss ! i) (PoolNamespace v) = (s1, Some e) \<longrightarrow>
                       Store sf (order ! i) = Some v
                       \<and> Error_init_failed (PoolNamespace v) (PoolName v) e \<in> set (klog sf))
                 \<and> (\<forall>s1 inp h st e.
                       ensure_rbdCommandInput w (ss ! i) (PoolNamespace v) = (s1, None)
                       \<and> rbdCommandInput s1 (PoolNamespace v) = Some inp
                       \<and> rbdImageStatus w (calls s1) inp (PoolName v) = (h, st, Some e) \<longrightarrow>
                       Store sf (order ! i) = Some v \<and> Error_rbd_command e \<in> set (klog sf))
                 \<and> (\<forall>s1 inp h st.
                       ensure_rbdCommandInput w (ss ! i) (PoolNamespace v) = (s1, None)
                       \<and> rbdCommandInput s1 (PoolNamespace v) = Some inp
                       \<and> rbdImageStatus w (calls s1) inp (PoolName v) = (h, st, None) \<longrightarrow>
                       Store sf (order ! i) = Some (v\<lparr>MirrorStatus := st\<rparr>)))"
    if c: "length ss = Suc (length order) \<and> ss ! 0 = ?s0
        \<and> (\<forall>i<length order.
              (case Store (ss ! i) (order ! i) of
                 None \<Rightarrow> ss ! Suc i = ss ! i
               | Some v \<Rightarrow> Resync_body w (ss ! i) (order ! i) v = Returns (ss ! Suc i)))"
    for ss
  proof -
    let ?sf = "Mutex_Unlock (klog_write Info_resync_ended (last ss))"
    from c have len: "length ss = Suc (length order)" and z: "ss ! 0 = ?s0"
      and steps: "\<forall>i<length order.
              (case Store (ss ! i) (order ! i) of
                 None \<Rightarrow> ss ! Suc i = ss ! i
               | Some v \<Rightarrow> Resync_body w (ss ! i) (order ! i) v = Returns (ss ! Suc i))"
      by blast+
    have pref: "Resync_loop w ?s0 (take i order) = Returns (ss ! i)" if "i \<le> length order" for i
      using Resync_loop_chain [OF len z steps that] .
    from len have "ss \<noteq> []" by auto
    then have lst: "last ss = ss ! length order" using len by (simp add: last_conv_nth)
    have whole: "Resync_loop w ?s0 order = Returns (last ss)"
      using pref [of "length order"] lst by simp
    then have res: "Resync w order s = Returns (?sf, None)" by (simp add: Resync_def)
    have entry: "(order ! i \<notin> set (take i order) \<longrightarrow> Store s (order ! i) = Some v)
                 \<and> (\<forall>s1 e. ensure_rbdCommandInput w (ss ! i) (PoolNamespace v) = (s1, Some e) \<longrightarrow>
                       Store ?sf (order ! i) = Some v
                       \<and> Error_init_failed (PoolNamespace v) (PoolName v) e \<in> set (klog ?sf))
                 \<and> (\<forall>s1 inp h st e.
                       ensure_rbdCommandInput w (ss ! i) (PoolNamespace v) = (s1, None)
                       \<and> rbdCommandInput s1 (PoolNamespace v) = Some inp
                       \<and> rbdImageStatus w (calls s1) inp (PoolName v) = (h, st, Some e) \<longrightarrow>
                       Store ?sf (order ! i) = Some v \<and> Error_rbd_command e \<in> set (klog ?sf))
                 \<and> (\<forall>s1 inp h st.
                       ensure_rbdCommandInput w (ss ! i) (PoolNamespace v) = (s1, None)
                       \<and> rbdCommandInput s1 (PoolNamespace v) = Some inp
                       \<and> rbdImageStatus w (calls s1) inp (PoolName v) = (h, st, None) \<longrightarrow>
                       Store ?sf (order ! i) = Some (v\<lparr>MirrorStatus := st\<rparr>))"
      if a: "i < length order \<and> order ! i \<notin> set (drop (Suc i) order)
                 \<and> Store (ss ! i) (order ! i) = Some v" for i v
    proof -
      let ?k = "order ! i"
      let ?sk = "ss ! i"
      from a have i: "i < length order" and post: "?k \<notin> set (drop (Suc i) order)"
        and v: "Store ?sk ?k = Some v" by blast+
      from steps i v have bd: "Resync_body w ?sk ?k v = Returns (ss ! Suc i)" by fastforce
      have split: "order = take (Suc i) order @ drop (Suc i) order" by simp
      have "Resync_loop w ?s0 (take (Suc i) order @ drop (Suc i) order) = Returns (last ss)"
        using whole by simp
      then have rest: "Resync_loop w (ss ! Suc i) (drop (Suc i) order) = Returns (last ss)"
        using pref [of "Suc i"] i by (simp only: Resync_loop_append) simp
      have store: "Store ?sf ?k = Store (ss ! Suc i) ?k"
        using Resync_loop_other [OF rest post] by (simp add: store_op_defs)
      obtain ls where "klog (last ss) = klog (ss ! Suc i) @ ls"
        using Resync_loop_klog [OF rest] by blast
      then have log: "set (klog (ss ! Suc i)) \<subseteq> set (klog ?sf)"
        by (auto simp: store_op_defs)
      have first: "?k \<notin> set (take i order) \<longrightarrow> Store s ?k = Some v"
        using Resync_loop_other [OF pref [of i], of ?k] i v by (simp add: store_op_defs)
      have init: "Store ?sf ?k = Some v
              \<and> Error_init_failed (PoolNamespace v) (PoolName v) e \<in> set (klog ?sf)"
        if e: "ensure_rbdCommandInput w ?sk (PoolNamespace v) = (s1, Some e)" for s1 e
      proof -
        have "ss ! Suc i = klog_write (Error_init_failed (PoolNamespace v) (PoolName v) e) s1"
          using bd e by (simp add: Resync_body_def)
        moreover have "Store s1 = Store ?sk" using e ensure_frame by blast
        ultimately show ?thesis using store v log by (auto simp: store_op_defs)
      qed
      have fetch: "Store ?sf ?k = Some v \<and> Error_rbd_command e \<in> set (klog ?sf)"
        if e: "ensure_rbdCommandInput w ?sk (PoolNamespace v) = (s1, None)
                       \<and> rbdCommandInput s1 (PoolNamespace v) = Some inp
                       \<and> rbdImageStatus w (calls s1) inp (PoolName v) = (h, st, Some e)"
        for s1 inp h st e
      proof -
        have "ss ! Suc i = klog_write (Error_rbd_command e) (s1\<lparr>calls := h\<rparr>)"
          using bd e by (simp add: Resync_body_def)
        moreover have "Store s1 = Store ?sk" using e ensure_frame by blast
        ultimately show ?thesis using store v log by (auto simp: store_op_defs)
      qed
      have fresh: "Store ?sf ?k = Some (v\<lparr>MirrorStatus := st\<rparr>)"
        if e: "ensure_rbdCommandInput w ?sk (PoolNamespace v) = (s1, None)
                       \<and> rbdCommandInput s1 (PoolNamespace v) = Some inp
                       \<and> rbdImageStatus w (calls s1) inp (PoolName v) = (h, st, None)"
        for s1 inp h st
      proof -
        have "ss ! Suc i = Store_put ?k (v\<lparr>MirrorStatus := st\<rparr>) (s1\<lparr>calls := h\<rparr>)"
          using bd e by (simp add: Resync_body_def record_new_status)
        then have "Store (ss ! Suc i) ?k = Some (v\<lparr>MirrorStatus := st\<rparr>)"
          by (simp add: store_op_defs)
        with store show ?thesis by simp
      qed
      show ?thesis
      proof (intro conjI allI impI)
        assume "?k \<notin> set (take i order)"
        with first show "Store s ?k = Some v" by simp
      next
        fix s1 e assume e: "ensure_rbdCommandInput w ?sk (PoolNamespace v) = (s1, Some e)"
        from init [OF e] show "Store ?sf ?k = Some v" by simp
        from init [OF e]
        show "Error_init_failed (PoolNamespace v) (PoolName v) e \<in> set (klog ?sf)" by simp
      next
        fix s1 inp h st e
        assume e: "ensure_rbdCommandInput w ?sk (PoolNamespace v) = (s1, None)
                       \<and> rbdCommandInput s1 (PoolNamespace v) = Some inp
                       \<and> rbdImageStatus w (calls s1) inp (PoolName v) = (h, st, Some e)"
        from fetch [OF e] show "Store ?sf ?k = Some v" by simp
        from fetch [OF e] show "Error_rbd_command e \<in> set (klog ?sf)" by simp
      next
        fix s1 inp h st
        assume e: "ensure_rbdCommandInput w ?sk (PoolNamespace v) = (s1, None)
                       \<and> rbdCommandInput s1 (PoolNamespace v) = Some inp
                       \<and> rbdImageStatus w (calls s1) inp (PoolName v) = (h, st, None)"
        from fresh [OF e] show "Store ?sf ?k = Some (v\<lparr>MirrorStatus := st\<rparr>)" .
      qed
    qed
    show ?thesis
    proof (rule exI [of _ ?sf], intro conjI)
      show "?sf = ?sf" by (rule refl)
      show "Resync w order s = Returns (?sf, None)" by (rule res)
      show "\<forall>i v. i < length order \<and> order ! i \<notin> set (drop (Suc i) order)
                 \<and> Store (ss ! i) (order ! i) = Some v \<longrightarrow>
                 (order ! i \<notin> set (take i order) \<longrightarrow> Store s (order ! i) = Some v)
                 \<and> (\<forall>s1 e. ensure_rbdCommandInput w (ss ! i) (PoolNamespace v) = (s1, Some e) \<longrightarrow>
                       Store ?sf (order ! i) = Some v
                       \<and> Error_init_failed (PoolNamespace v) (PoolName v) e \<in> set (klog ?sf))
                 \<and> (\<forall>s1 inp h st e.
                       ensure_rbdCommandInput w (ss ! i) (PoolNamespace v) = (s1, None)
                       \<and> rbdCommandInput s1 (PoolNamespace v) = Some inp
                       \<and> rbdImageStatus w (calls s1) inp (PoolName v) = (h, st, Some e) \<longrightarrow>
                       Store ?sf (order ! i) = Some v \<and> Error_rbd_command e \<in> set (klog ?sf))
                 \<and> (\<forall>s1 inp h st.
                       ensure_rbdCommandInput w (ss ! i) (PoolNamespace v) = (s1, None)
                       \<and> rbdCommandInput s1 (PoolNamespace v) = Some inp
                       \<and> rbdImageStatus w (calls s1) inp (PoolName v) = (h, st, None) \<longrightarrow>
                       Store ?sf (order ! i) = Some (v\<lparr>MirrorStatus := st\<rparr>))"
      proof (intro allI, rule impI)
        fix i v
        assume a: "i < length order \<and> order ! i \<notin> set (drop (Suc i) order)
                 \<and> Store (ss ! i) (order ! i) = Some v"
        show "(order ! i \<notin> set (take i order) \<longrightarrow> Store s (order ! i) = Some v)
                 \<and> (\<forall>s1 e. ensure_rbdCommandInput w (ss ! i) (PoolNamespace v) = (s1, Some e) \<longrightarrow>
                       Store ?sf (order ! i) = Some v
                       \<and> Error_init_failed (PoolNamespace v) (PoolName v) e \<in> set (klog ?sf))
                 \<and> (\<forall>s1 inp h st e.
                       ensure_rbdCommandInput w (ss ! i) (PoolNamespace v) = (s1, None)
                       \<and> rbdCommandInput s1 (PoolNamespace v) = Some inp
                       \<and> rbdImageStatus w (calls s1) inp (PoolName v) = (h, st, Some e) \<longrightarrow>
                       Store ?sf (order ! i) = Some v \<and> Error_rbd_command e \<in> set (klog ?sf))
                 \<and> (\<forall>s1 inp h st.
                       ensure_rbdCommandInput w (ss ! i) (PoolNamespace v) = (s1, None)
                       \<and> rbdCommandInput s1 (PoolNamespace v) = Some inp
                       \<and> rbdImageStatus w (calls s1) inp (PoolName v) = (h, st, None) \<longrightarrow>
                       Store ?sf (order ! i) = Some (v\<lparr>MirrorStatus := st\<rparr>))"
          by (rule entry [OF a])
      qed
    qed
  qed
  show ?thesis
  proof (intro conjI)
    show "\<exists>sf. Resync w order s = Returns (sf, None)" by (rule never)
  next
    show "\<forall>sk k v.
        (\<forall>s1 e. ensure_rbdCommandInput w sk (PoolNamespace v) = (s1, Some e) \<longrightarrow>
           Resync_body w sk k v
             = Returns (klog_write (Error_init_failed (PoolNamespace v) (PoolName v) e) s1))
        \<and> (\<forall>s1 inp h st e. ensure_rbdCommandInput w sk (PoolNamespace v) = (s1, None)
              \<and> rbdCommandInput s1 (PoolNamespace v) = Some inp
              \<and> rbdImageStatus w (calls s1) inp (PoolName v) = (h, st, Some e) \<longrightarrow>
           Resync_body w sk k v = Returns (klog_write (Error_rbd_command e) (s1\<lparr>calls := h\<rparr>)))
        \<and> (\<forall>s1 inp h st. ensure_rbdCommandInput w sk (PoolNamespace v) = (s1, None)
              \<and> rbdCommandInput s1 (PoolNamespace v) = Some inp
              \<and> rbdImageStatus w (calls s1) inp (PoolName v) = (h, st, None) \<longrightarrow>
           Resync_body w sk k v
             = Returns (Store_put k (v\<lparr>MirrorStatus := st\<rparr>) (s1\<lparr>calls := h\<rparr>)))"
      using body by (intro allI)
  next
    show "\<exists>ss. length ss = Suc (length order) \<and> ss ! 0 = ?s0
        \<and> (\<forall>i<length order.
              (case Store (ss ! i) (order ! i) of
                 None \<Rightarrow> ss ! Suc i = ss ! i
               | Some v \<Rightarrow> Resync_body w (ss ! i) (order ! i) v = Returns (ss ! Suc i)))"
      by (rule exists)
  next
    show "\<forall>ss. length ss = Suc (length order) \<and> ss ! 0 = ?s0
        \<and> (\<forall>i<length order.
              (case Store (ss ! i) (order ! i) of
                 None \<Rightarrow> ss ! Suc i = ss ! i
               | Some v \<Rightarrow> Resync_body w (ss ! i) (order ! i) v = Returns (ss ! Suc i))) \<longrightarrow>
        (\<exists>sf. sf = Mutex_Unlock (klog_write Info_resync_ended (last ss))
           \<and> Resync w order s = Returns (sf, None)
           \<and> (\<forall>i v. i < length order \<and> order ! i \<notin> set (drop (Suc i) order)
                 \<and> Store (ss ! i) (order ! i) = Some v \<longrightarrow>
                 (order ! i \<notin> set (take i order) \<longrightarrow> Store s (order ! i) = Some v)
                 \<and> (\<forall>s1 e. ensure_rbdCommandInput w (ss ! i) (PoolNamespace v) = (s1, Some e) \<longrightarrow>
                       Store sf (order ! i) = Some v
                       \<and> Error_init_failed (PoolNamespace v) (PoolName v) e \<in> set (klog sf))
                 \<and> (\<forall>s1 inp h st e.
                       ensure_rbdCommandInput w (ss ! i) (PoolNamespace v) = (s1, None)
                       \<and> rbdCommandInput s1 (PoolNamespace v) = Some inp
                       \<and> rbdImageStatus w (calls s1) inp (PoolName v) = (h, st, Some e) \<longrightarrow>
                       Store sf (order ! i) = Some v \<and> Error_rbd_command e \<in> set (klog sf))
                 \<and> (\<forall>s1 inp h st.
                       ensure_rbdCommandInput w (ss ! i) (PoolNamespace v) = (s1, None)
                       \<and> rbdCommandInput s1 (PoolNamespace v) = Some inp
                       \<and> rbdImageStatus w (calls s1) inp (PoolName v) = (h, st, None) \<longrightarrow>
                       Store sf (order ! i) = Some (v\<lparr>MirrorStatus := st\<rparr>))))"
    proof (intro allI, rule impI)
      fix ss
      assume c: "length ss = Suc (length order) \<and> ss ! 0 = ?s0
        \<and> (\<forall>i<length order.
              (case Store (ss ! i) (order ! i) of
                 None \<Rightarrow> ss ! Suc i = ss ! i
               | Some v \<Rightarrow> Resync_body w (ss ! i) (order ! i) v = Returns (ss ! Suc i)))"
      from sweep [OF c]
      show "\<exists>sf. sf = Mutex_Unlock (klog_write Info_resync_ended (last ss))
           \<and> Resync w order s = Returns (sf, None)
           \<and> (\<forall>i v. i < length order \<and> order ! i \<notin> set (drop (Suc i) order)
                 \<and> Store (ss ! i) (order ! i) = Some v \<longrightarrow>
                 (order ! i \<notin> set (take i order) \<longrightarrow> Store s (order ! i) = Some v)
                 \<and> (\<forall>s1 e. ensure_rbdCommandInput w (ss ! i) (PoolNamespace v) = (s1, Some e) \<longrightarrow>
                       Store sf (order ! i) = Some v
                       \<and> Error_init_failed (PoolNamespace v) (PoolName v) e \<in> set (klog sf))
                 \<and> (\<forall>s1 inp h st e.
                       ensure_rbdCommandInput w (ss ! i) (PoolNamespace v) = (s1, None)
                       \<and> rbdCommandInput s1 (PoolNamespace v) = Some inp
                       \<and> rbdImageStatus w (calls s1) inp (PoolName v) = (h, st, Some e) \<longrightarrow>
                       Store sf (order ! i) = Some v \<and> Error_rbd_command e \<in> set (klog sf))
                 \<and> (\<forall>s1 inp h st.
                       ensure_rbdCommandInput w (ss ! i) (PoolNamespace v) = (s1, None)
                       \<and> rbdCommandInput s1 (PoolNamespace v) = Some inp
                       \<and> rbdImageStatus w (calls s1) inp (PoolName v) = (h, st, None) \<longrightarrow>
                       Store sf (order ! i) = Some (v\<lparr>MirrorStatus := st\<rparr>)))" .
    qed
  qed
qed

theorem Resync_tolerates_failures_witness:
  "\<exists>sf. Resync ex_world [''u2'', ''u1''] ex_populated = Returns (sf, None)
     \<and> Store sf ''u2'' = Some (ex_record ''pool2'' zero_RBDMirrorStatusVerbose)
     \<and> Error_rbd_command (CommandExecutionError ''exit status 2'') \<in> set (klog sf)
     \<and> Store sf ''u1'' = Some (ex_record ''pool1'' ex_status)"
proof -
  let ?r1 = "ex_record ''pool1'' zero_RBDMirrorStatusVerbose"
  let ?r2 = "ex_record ''pool2'' zero_RBDMirrorStatusVerbose"
  let ?e = "CommandExecutionError ''exit status 2''"
  let ?s0 = "ex_populated\<lparr>klog := [Info_resync_started], events := [MutexLock]\<rparr>"
  let ?s1 = "ex_populated\<lparr>calls := [Exec ''rbd'' (rbd_args ex_input ''pool2'') True],
    klog := [Info_resync_started, Error_rbd_command ?e], events := [MutexLock]\<rparr>"
  let ?s2 = "ex_populated\<lparr>Store := (Store ex_populated)(''u1'' \<mapsto> ?r1\<lparr>MirrorStatus := ex_status\<rparr>),
    calls := [Exec ''rbd'' (rbd_args ex_input ''pool2'') True,
              Exec ''rbd'' (rbd_args ex_input ''pool1'') True],
    klog := [Info_resync_started, Error_rbd_command ?e],
    events := [MutexLock, StorePut ''u1'']\<rparr>"
  have z: "Mutex_Lock (klog_write Info_resync_started ex_populated) = ?s0"
    by (simp add: store_op_defs ex_populated_fields)
  have names: "PoolNamespace ?r1 = ''ns1''" "PoolName ?r1 = ''pool1''"
    "PoolNamespace ?r2 = ''ns1''" "PoolName ?r2 = ''pool2''"
    by (simp_all add: ex_record_def)
  have b2: "Resync_body ex_world ?s0 ''u2'' ?r2 = Returns ?s1"
    by (simp add: Resync_body_def names ensure_cached ex_populated_fields ex_rbdImageStatus
        store_op_defs)
  have b1: "Resync_body ex_world ?s1 ''u1'' ?r1 = Returns ?s2"
    by (simp add: Resync_body_def ex_record_def ensure_cached ex_populated_fields
        ex_rbdImageStatus store_op_defs)
  have c: "length [?s0, ?s1, ?s2] = Suc (length [''u2'', ''u1''])
        \<and> [?s0, ?s1, ?s2] ! 0 = Mutex_Lock (klog_write Info_resync_started ex_populated)
        \<and> (\<forall>i<length [''u2'', ''u1''].
              (case Store ([?s0, ?s1, ?s2] ! i) ([''u2'', ''u1''] ! i) of
                 None \<Rightarrow> [?s0, ?s1, ?s2] ! Suc i = [?s0, ?s1, ?s2] ! i
               | Some v \<Rightarrow> Resync_body ex_world ([?s0, ?s1, ?s2] ! i) ([''u2'', ''u1''] ! i) v
                            = Returns ([?s0, ?s1, ?s2] ! Suc i)))"
    by (simp add: z All_less_Suc ex_populated_fields b1 b2)
  note t = Resync_tolerates_failures [of ex_world "[''u2'', ''u1'']" ex_populated,
      THEN conjunct2, THEN conjunct2, THEN conjunct2, rule_format, OF c]
  then obtain sf where sf: "Resync ex_world [''u2'', ''u1''] ex_populated = Returns (sf, None)"
    and en: "\<forall>i v. i < length [''u2'', ''u1''] \<and> [''u2'', ''u1''] ! i \<notin> set (drop (Suc i) [''u2'', ''u1''])
                 \<and> Store ([?s0, ?s1, ?s2] ! i) ([''u2'', ''u1''] ! i) = Some v \<longrightarrow>
                 ([''u2'', ''u1''] ! i \<notin> set (take i [''u2'', ''u1'']) \<longrightarrow>
                    Store ex_populated ([''u2'', ''u1''] ! i) = Some v)
                 \<and> (\<forall>s1 e. ensure_rbdCommandInput ex_world ([?s0, ?s1, ?s2] ! i) (PoolNamespace v)
                              = (s1, Some e) \<longrightarrow>
                       Store sf ([''u2'', ''u1''] ! i) = Some v
                       \<and> Error_init_failed (PoolNamespace v) (PoolName v) e \<in> set (klog sf))
                 \<and> (\<forall>s1 inp h st e.
                       ensure_rbdCommandInput ex_world ([?s0, ?s1, ?s2] ! i) (PoolNamespace v)
                         = (s1, None)
                       \<and> rbdCommandInput s1 (PoolNamespace v) = Some inp
                       \<and> rbdImageStatus ex_world (calls s1) inp (PoolName v) = (h, st, Some e) \<longrightarrow>
                       Store sf ([''u2'', ''u1''] ! i) = Some v \<and> Error_rbd_command e \<in> set (klog sf))
                 \<and> (\<forall>s1 inp h st.
                       ensure_rbdCommandInput ex_world ([?s0, ?s1, ?s2] ! i) (PoolNamespace v)
                         = (s1, None)
                       \<and> rbdCommandInput s1 (PoolNamespace v) = Some inp
                       \<and> rbdImageStatus ex_world (calls s1) inp (PoolName v) = (h, st, None) \<longrightarrow>
                       Store sf ([''u2'', ''u1''] ! i) = Some (v\<lparr>MirrorStatus := st\<rparr>))"
    by blast
  have p2: "0 < length [''u2'', ''u1''] \<and> [''u2'', ''u1''] ! 0 \<notin> set (drop (Suc 0) [''u2'', ''u1''])
        \<and> Store ([?s0, ?s1, ?s2] ! 0) ([''u2'', ''u1''] ! 0) = Some ?r2"
    by (simp add: ex_populated_fields)
  have f2: "ensure_rbdCommandInput ex_world ([?s0, ?s1, ?s2] ! 0) (PoolNamespace ?r2)
              = (?s0, None)
        \<and> rbdCommandInput ?s0 (PoolNamespace ?r2) = Some ex_input
        \<and> rbdImageStatus ex_world (calls ?s0) ex_input (PoolName ?r2)
            = ([Exec ''rbd'' (rbd_args ex_input ''pool2'') True], zero_RBDMirrorStatusVerbose,
               Some ?e)"
    by (simp add: names ensure_cached ex_populated_fields ex_rbdImageStatus)
  have p1: "1 < length [''u2'', ''u1''] \<and> [''u2'', ''u1''] ! 1 \<notin> set (drop (Suc 1) [''u2'', ''u1''])
        \<and> Store ([?s0, ?s1, ?s2] ! 1) ([''u2'', ''u1''] ! 1) = Some ?r1"
    by (simp add: ex_populated_fields)
  have f1: "ensure_rbdCommandInput ex_world ([?s0, ?s1, ?s2] ! 1) (PoolNamespace ?r1)
              = (?s1, None)
        \<and> rbdCommandInput ?s1 (PoolNamespace ?r1) = Some ex_input
        \<and> rbdImageStatus ex_world (calls ?s1) ex_input (PoolName ?r1)
            = ([Exec ''rbd'' (rbd_args ex_input ''pool2'') True,
                Exec ''rbd'' (rbd_args ex_input ''pool1'') True], ex_status, None)"
    by (simp add: names ensure_cached ex_populated_fields ex_rbdImageStatus)
  have r2: "Store sf ''u2'' = Some ?r2 \<and> Error_rbd_command ?e \<in> set (klog sf)"
    using en [rule_format, OF p2, THEN conjunct2, THEN conjunct2, THEN conjunct1, rule_format,
        OF f2] by simp
  have r1: "Store sf ''u1'' = Some (?r1\<lparr>MirrorStatus := ex_status\<rparr>)"
    using en [rule_format, OF p1, THEN conjunct2, THEN conjunct2, THEN conjunct2, rule_format,
        OF f1] by simp
  show ?thesis using sf r1 r2 by (auto simp: ex_record_def)
qed

subsection \<open>Add: a failure leaves the map as it was\<close>




subsection \<open>Add: a pool without mirroring is skipped\<close>

text \<open>
  Claim C4. For a pool whose \<^verbatim>\<open>Spec.Mirroring.Enabled\<close> is false, Add and Update return without
  an error; the map, an entry of the same UID included, and the resolved command inputs are
  the ones from before the call, and no external call is issued (the only effect is the line
  in the log).
\<close>

theorem Add_mirroring_disabled:
  "\<not> Spec_Mirroring_Enabled pool \<Longrightarrow>
     \<exists>s'. Add w s (PoolObj pool) = Returns (s', None)
        \<and> Update w s (PoolObj pool) = Returns (s', None)
        \<and> Store s' = Store s \<and> rbdCommandInput s' = rbdCommandInput s \<and> calls s' = calls s"
  by (simp add: Add_def Update_def klog_write_def)

theorem Add_mirroring_disabled_witness:
  "\<not> Spec_Mirroring_Enabled (ex_pool ''pool1'' ''ns1'' ''u1'' False)
   \<and> (\<exists>s'. Add ex_world ex_populated (PoolObj (ex_pool ''pool1'' ''ns1'' ''u1'' False))
              = Returns (s', None)
          \<and> Update ex_world ex_populated (PoolObj (ex_pool ''pool1'' ''ns1'' ''u1'' False))
              = Returns (s', None)
          \<and> Store s' ''u1'' = Some (ex_record ''pool1'' zero_RBDMirrorStatusVerbose)
          \<and> calls s' = [])"
proof -
  have h: "\<not> Spec_Mirroring_Enabled (ex_pool ''pool1'' ''ns1'' ''u1'' False)"
    by (simp add: ex_pool_def)
  show ?thesis
    using h Add_mirroring_disabled [OF h, of ex_world ex_populated]
    by (auto simp: ex_populated_def)
qed

subsection \<open>The command input of a namespace is resolved once\<close>

text \<open>
  Claim C5. For an allowed namespace without an entry, when the secret has the field
  \<^verbatim>\<open>ceph-secret\<close>, the configmap has the field \<^verbatim>\<open>csi-cluster-config-json\<close> and the field
  decodes to a sequence whose first record has a first monitor, the resolution stores the
  triple of that monitor, the id \<^verbatim>\<open>admin\<close> and the secret's key under the namespace, after
  exactly the two lookups; resolving again in the state reached changes nothing and looks
  nothing up. In any state in which the namespace has an entry the resolution is skipped, and
  an Add for a pool of that namespace keeps the entries and issues no lookup. A failed
  resolution leaves the entries as they were, so the next one runs the whole of
  \<^verbatim>\<open>WithRBDCommandInput\<close> again, starting, for an allowed namespace, with the lookup of the
  secret.
\<close>

theorem ensure_rbdCommandInput_caches:
  "(\<forall>secret k configmap data c cs m ms.
       namespace \<in> set (allowedNamespaces s) \<and> rbdCommandInput s namespace = None
       \<and> secrets_get w (calls s) namespace ''rook-ceph-mon'' = Inr secret
       \<and> secret ''ceph-secret'' = Some k
       \<and> configmaps_get w (calls s @ [SecretGet namespace ''rook-ceph-mon''])
           namespace ''rook-ceph-csi-config'' = Inr configmap
       \<and> configmap ''csi-cluster-config-json'' = Some data
       \<and> unmarshal_clusterConfig w data = Inr (c # cs) \<and> Monitors c = m # ms \<longrightarrow>
       (\<exists>s1. ensure_rbdCommandInput w s namespace = (s1, None)
          \<and> rbdCommandInput s1 namespace = Some \<lparr>monitor = m, id' = ''admin'', key = k\<rparr>
          \<and> calls s1 = calls s @ [SecretGet namespace ''rook-ceph-mon'',
                                    ConfigMapGet namespace ''rook-ceph-csi-config'']
          \<and> ensure_rbdCommandInput w s1 namespace = (s1, None)))
   \<and> (\<forall>inp. rbdCommandInput s namespace = Some inp \<longrightarrow>
        ensure_rbdCommandInput w s namespace = (s, None)
        \<and> (\<forall>pool. Namespace (Meta pool) = namespace \<longrightarrow>
             (\<exists>s' r. Add w s (PoolObj pool) = Returns (s', r)
                \<and> rbdCommandInput s' = rbdCommandInput s
                \<and> filter is_lookup (calls s') = filter is_lookup (calls s))))
   \<and> (\<forall>s' e. rbdCommandInput s namespace = None
        \<and> ensure_rbdCommandInput w s namespace = (s', Some e) \<longrightarrow>
        rbdCommandInput s' = rbdCommandInput s
        \<and> ensure_rbdCommandInput w s' namespace = WithRBDCommandInput w s' namespace
        \<and> (namespace \<in> set (allowedNamespaces s) \<longrightarrow>
             (\<exists>rest. calls (fst (ensure_rbdCommandInput w s' namespace))
                      = calls s' @ SecretGet namespace ''rook-ceph-mon'' # rest)))"
proof (intro conjI allI impI)
  fix secret k configmap data c cs m ms
  assume h: "namespace \<in> set (allowedNamespaces s) \<and> rbdCommandInput s namespace = None
       \<and> secrets_get w (calls s) namespace ''rook-ceph-mon'' = Inr secret
       \<and> secret ''ceph-secret'' = Some k
       \<and> configmaps_get w (calls s @ [SecretGet namespace ''rook-ceph-mon''])
           namespace ''rook-ceph-csi-config'' = Inr configmap
       \<and> configmap ''csi-cluster-config-json'' = Some data
       \<and> unmarshal_clusterConfig w data = Inr (c # cs) \<and> Monitors c = m # ms"
  then have "WithRBDCommandInput w s namespace =
         (s\<lparr>rbdCommandInput := (rbdCommandInput s)(namespace \<mapsto>
               \<lparr>monitor = m, id' = ''admin'', key = k\<rparr>),
            calls := calls s @ [SecretGet namespace ''rook-ceph-mon'',
                                 ConfigMapGet namespace ''rook-ceph-csi-config'']\<rparr>,
          None)"
    by (simp add: WithRBDCommandInput_resolved [of namespace s w secret k configmap data])
  with h show "\<exists>s1. ensure_rbdCommandInput w s namespace = (s1, None)
          \<and> rbdCommandInput s1 namespace = Some \<lparr>monitor = m, id' = ''admin'', key = k\<rparr>
          \<and> calls s1 = calls s @ [SecretGet namespace ''rook-ceph-mon'',
                                    ConfigMapGet namespace ''rook-ceph-csi-config'']
          \<and> ensure_rbdCommandInput w s1 namespace = (s1, None)"
    by (simp add: ensure_rbdCommandInput_def)
next
  fix inp assume "rbdCommandInput s namespace = Some inp"
  then show "ensure_rbdCommandInput w s namespace = (s, None)" by (rule ensure_cached)
next
  fix inp and pool :: CephBlockPool
  assume "rbdCommandInput s namespace = Some inp" "Namespace (Meta pool) = namespace"
  then show "\<exists>s' r. Add w s (PoolObj pool) = Returns (s', r)
                \<and> rbdCommandInput s' = rbdCommandInput s
                \<and> filter is_lookup (calls s') = filter is_lookup (calls s)"
    using Add_cached_calls [of s pool inp w] by simp
next
  fix s' e
  assume h: "rbdCommandInput s namespace = None
        \<and> ensure_rbdCommandInput w s namespace = (s', Some e)"
  then show c: "rbdCommandInput s' = rbdCommandInput s" using ensure_error by blast
  with h show u: "ensure_rbdCommandInput w s' namespace = WithRBDCommandInput w s' namespace"
    by (simp add: ensure_rbdCommandInput_def)
  show "\<exists>rest. calls (fst (ensure_rbdCommandInput w s' namespace))
                      = calls s' @ SecretGet namespace ''rook-ceph-mon'' # rest"
    if "namespace \<in> set (allowedNamespaces s)"
  proof -
    from h have "allowedNamespaces s' = allowedNamespaces s" using ensure_frame by blast
    with that show ?thesis using WithRBDCommandInput_first_call [of namespace s' w] u by simp
  qed
qed

theorem ensure_rbdCommandInput_caches_witness:
  "(\<exists>s1. ensure_rbdCommandInput ex_world (NewRBDMirrorStore ex_allowed) ''ns1'' = (s1, None)
      \<and> rbdCommandInput s1 ''ns1''
          = Some \<lparr>monitor = ''10.0.0.1:6789'', id' = ''admin'', key = ''AQABCDEF==''\<rparr>
      \<and> calls s1 = [SecretGet ''ns1'' ''rook-ceph-mon'',
                     ConfigMapGet ''ns1'' ''rook-ceph-csi-config'']
      \<and> ensure_rbdCommandInput ex_world s1 ''ns1'' = (s1, None))
   \<and> ensure_rbdCommandInput ex_world ex_populated ''ns1'' = (ex_populated, None)
   \<and> (\<exists>s' r. Add ex_world ex_populated (PoolObj (ex_pool ''pool1'' ''ns1'' ''u1'' True))
                 = Returns (s', r)
         \<and> filter is_lookup (calls s') = [])
   \<and> ensure_rbdCommandInput ex_world (NewRBDMirrorStore ex_allowed) ''ns3''
       = ((NewRBDMirrorStore ex_allowed)
            \<lparr>calls := [SecretGet ''ns3'' ''rook-ceph-mon'',
                        ConfigMapGet ''ns3'' ''rook-ceph-csi-config'']\<rparr>,
          Some (ConfigParseError ''ns3'' ''unexpected end of JSON input''))
   \<and> rbdCommandInput ((NewRBDMirrorStore ex_allowed)
            \<lparr>calls := [SecretGet ''ns3'' ''rook-ceph-mon'',
                        ConfigMapGet ''ns3'' ''rook-ceph-csi-config'']\<rparr>) ''ns3'' = None
   \<and> (\<exists>rest. calls (fst (ensure_rbdCommandInput ex_world ((NewRBDMirrorStore ex_allowed)
            \<lparr>calls := [SecretGet ''ns3'' ''rook-ceph-mon'',
                        ConfigMapGet ''ns3'' ''rook-ceph-csi-config'']\<rparr>) ''ns3''))
         = [SecretGet ''ns3'' ''rook-ceph-mon'', ConfigMapGet ''ns3'' ''rook-ceph-csi-config'',
            SecretGet ''ns3'' ''rook-ceph-mon''] @ rest)"
proof -
  let ?new = "NewRBDMirrorStore ex_allowed"
  let ?s3 = "?new\<lparr>calls := [SecretGet ''ns3'' ''rook-ceph-mon'',
                        ConfigMapGet ''ns3'' ''rook-ceph-csi-config'']\<rparr>"
  have n: "''ns1'' \<in> set ex_allowed" "''ns3'' \<in> set ex_allowed"
    by (simp_all add: ex_allowed_def)
  have new: "allowedNamespaces ?new = ex_allowed" "rbdCommandInput ?new = Map.empty"
    "calls ?new = []"
    by (simp_all add: NewRBDMirrorStore_def)
  have h1: "''ns1'' \<in> set (allowedNamespaces ?new) \<and> rbdCommandInput ?new ''ns1'' = None
       \<and> secrets_get ex_world (calls ?new) ''ns1'' ''rook-ceph-mon'' = Inr ex_secret
       \<and> ex_secret ''ceph-secret'' = Some ''AQABCDEF==''
       \<and> configmaps_get ex_world (calls ?new @ [SecretGet ''ns1'' ''rook-ceph-mon''])
           ''ns1'' ''rook-ceph-csi-config'' = Inr (ex_configmap ''ns1'')
       \<and> ex_configmap ''ns1'' ''csi-cluster-config-json'' = Some (ex_config_json ''ns1'')
       \<and> unmarshal_clusterConfig ex_world (ex_config_json ''ns1'')
           = Inr (\<lparr>ClusterID = ''c1'', Monitors = [''10.0.0.1:6789'']\<rparr> # [])
       \<and> Monitors \<lparr>ClusterID = ''c1'', Monitors = [''10.0.0.1:6789'']\<rparr>
           = ''10.0.0.1:6789'' # []"
    using n by (simp add: new ex_secrets_get ex_configmaps_get ex_unmarshal ex_secret_def
        ex_configmap_def)
  note t1 = ensure_rbdCommandInput_caches [where w = ex_world and s = ?new
      and namespace = "''ns1''", THEN conjunct1, rule_format, OF h1]
  note t2 = ensure_rbdCommandInput_caches [where w = ex_world and s = ex_populated
      and namespace = "''ns1''", THEN conjunct2, THEN conjunct1, rule_format,
      OF ex_populated_fields(1)]
  have p: "Namespace (Meta (ex_pool ''pool1'' ''ns1'' ''u1'' True)) = ''ns1''"
    by (simp add: ex_pool_def)
  have t2a: "\<exists>s' r. Add ex_world ex_populated (PoolObj (ex_pool ''pool1'' ''ns1'' ''u1'' True))
                 = Returns (s', r)
         \<and> filter is_lookup (calls s') = []"
    using t2 [THEN conjunct2, rule_format, OF p] by (auto simp: ex_populated_fields)
  have e3: "ensure_rbdCommandInput ex_world ?new ''ns3''
     = (?s3, Some (ConfigParseError ''ns3'' ''unexpected end of JSON input''))"
    using n(2)
    by (simp add: ensure_rbdCommandInput_def WithRBDCommandInput_def allow_iff new
        ex_secrets_get ex_configmaps_get ex_unmarshal ex_secret_def ex_configmap_def Let_def)
  have h3: "rbdCommandInput ?new ''ns3'' = None
     \<and> ensure_rbdCommandInput ex_world ?new ''ns3''
        = (?s3, Some (ConfigParseError ''ns3'' ''unexpected end of JSON input''))"
    using e3 by (simp add: new)
  note t3 = ensure_rbdCommandInput_caches [where w = ex_world and s = ?new
      and namespace = "''ns3''", THEN conjunct2, THEN conjunct2, rule_format, OF h3]
  have a3: "''ns3'' \<in> set (allowedNamespaces ?new)" using n by (simp add: new)
  note t3a = t3 [THEN conjunct2, THEN conjunct2, rule_format, OF a3]
  have c3: "rbdCommandInput ?s3 ''ns3'' = None" using t3 [THEN conjunct1] by (simp add: new)
  show ?thesis
    using t1 t2 [THEN conjunct1] t2a e3 c3 t3a by (simp add: new ex_populated_fields)
qed

subsection \<open>A namespace outside the allow-list\<close>

text \<open>
  Claim C6. For a namespace that is not in \<^verbatim>\<open>allowedNamespaces\<close>, \<^verbatim>\<open>WithRBDCommandInput\<close>
  returns the error of a namespace that is not allowed and the state it was called in: no
  external call is recorded and the resolved command inputs are unchanged.
\<close>

theorem WithRBDCommandInput_not_allowed:
  "namespace \<notin> set (allowedNamespaces s) \<Longrightarrow>
     WithRBDCommandInput w s namespace = (s, Some (NotAllowedNamespace namespace))"
  by (simp add: WithRBDCommandInput_def allow_iff)

theorem WithRBDCommandInput_not_allowed_witness:
  "''ns2'' \<notin> set (allowedNamespaces ex_populated)
   \<and> WithRBDCommandInput ex_world ex_populated ''ns2''
       = (ex_populated, Some (NotAllowedNamespace ''ns2''))"
proof -
  have h: "''ns2'' \<notin> set (allowedNamespaces ex_populated)"
    by (simp add: ex_populated_def ex_allowed_def)
  show ?thesis
    using h WithRBDCommandInput_not_allowed [OF h, of ex_world] by simp
qed

subsection \<open>The cluster configuration\<close>

text \<open>
  Claim C7. Let the namespace be allowed, the secret have its key and the configmap its
  field. If the field does not decode, the error is the parse error with the decoder's
  message; if it decodes to the empty sequence, the error is that of no cluster
  configuration; if the first record has no monitor, the error is that of no monitors. In
  these three cases no entry is stored. Otherwise the entry stored is the first monitor of
  the first record, \<^verbatim>\<open>admin\<close> and the key: the rest \<open>ms\<close> of the monitors, the rest \<open>cs\<close> of the
  records and the cluster id do not occur in the result.
\<close>

theorem WithRBDCommandInput_cluster_config:
  assumes "namespace \<in> set (allowedNamespaces s)"
    and "secrets_get w (calls s) namespace ''rook-ceph-mon'' = Inr secret"
    and "secret ''ceph-secret'' = Some k"
    and "configmaps_get w (calls s @ [SecretGet namespace ''rook-ceph-mon''])
           namespace ''rook-ceph-csi-config'' = Inr configmap"
    and "configmap ''csi-cluster-config-json'' = Some data"
  shows
   "(\<forall>err. unmarshal_clusterConfig w data = Inl err \<longrightarrow>
       WithRBDCommandInput w s namespace =
         (s\<lparr>calls := calls s @ [SecretGet namespace ''rook-ceph-mon'',
                                 ConfigMapGet namespace ''rook-ceph-csi-config'']\<rparr>,
          Some (ConfigParseError namespace err)))
    \<and> (unmarshal_clusterConfig w data = Inr [] \<longrightarrow>
       WithRBDCommandInput w s namespace =
         (s\<lparr>calls := calls s @ [SecretGet namespace ''rook-ceph-mon'',
                                 ConfigMapGet namespace ''rook-ceph-csi-config'']\<rparr>,
          Some (NoClusterConfig namespace)))
    \<and> (\<forall>c cs. unmarshal_clusterConfig w data = Inr (c # cs) \<and> Monitors c = [] \<longrightarrow>
       WithRBDCommandInput w s namespace =
         (s\<lparr>calls := calls s @ [SecretGet namespace ''rook-ceph-mon'',
                                 ConfigMapGet namespace ''rook-ceph-csi-config'']\<rparr>,
          Some (NoMonitors namespace)))
    \<and> (\<forall>c cs m ms. unmarshal_clusterConfig w data = Inr (c # cs) \<and> Monitors c = m # ms \<longrightarrow>
       WithRBDCommandInput w s namespace =
         (s\<lparr>rbdCommandInput := (rbdCommandInput s)(namespace \<mapsto>
               \<lparr>monitor = m, id' = ''admin'', key = k\<rparr>),
            calls := calls s @ [SecretGet namespace ''rook-ceph-mon'',
                                 ConfigMapGet namespace ''rook-ceph-csi-config'']\<rparr>,
          None))"
  by (simp add: WithRBDCommandInput_resolved [OF assms])

theorem WithRBDCommandInput_cluster_config_witness:
  "snd (WithRBDCommandInput ex_world (NewRBDMirrorStore ex_allowed) ''ns3'')
     = Some (ConfigParseError ''ns3'' ''unexpected end of JSON input'')
   \<and> snd (WithRBDCommandInput ex_world (NewRBDMirrorStore ex_allowed) ''ns4'')
     = Some (NoClusterConfig ''ns4'')
   \<and> snd (WithRBDCommandInput ex_world (NewRBDMirrorStore ex_allowed) ''ns5'')
     = Some (NoMonitors ''ns5'')
   \<and> snd (WithRBDCommandInput ex_world (NewRBDMirrorStore ex_allowed) ''ns6'') = None
   \<and> rbdCommandInput (fst (WithRBDCommandInput ex_world (NewRBDMirrorStore ex_allowed) ''ns6''))
        ''ns6'' = Some \<lparr>monitor = ''10.0.0.1:6789'', id' = ''admin'', key = ''AQABCDEF==''\<rparr>"
proof -
  have a: "namespace \<in> set (allowedNamespaces (NewRBDMirrorStore ex_allowed))"
    if "namespace \<in> set ex_allowed" for namespace
    using that by (simp add: NewRBDMirrorStore_def)
  have k: "ex_secret ''ceph-secret'' = Some ''AQABCDEF==''"
    by (simp add: ex_secret_def)
  have d: "ex_configmap namespace ''csi-cluster-config-json'' = Some (ex_config_json namespace)"
    for namespace by (simp add: ex_configmap_def)
  have n: "''ns3'' \<in> set ex_allowed" "''ns4'' \<in> set ex_allowed" "''ns5'' \<in> set ex_allowed"
    "''ns6'' \<in> set ex_allowed"
    by (simp_all add: ex_allowed_def)
  note t = WithRBDCommandInput_cluster_config [OF a ex_secrets_get k ex_configmaps_get d]
  show ?thesis
    using t [OF n(1) n(1) n(1)] t [OF n(2) n(2) n(2)] t [OF n(3) n(3) n(3)] t [OF n(4) n(4) n(4)]
    by (simp add: ex_unmarshal)
qed

subsection \<open>Delete\<close>

text \<open>
  Claim C8, as the code has it. Delete takes the UID from the metadata of its argument. For a
  value without object metadata it returns the error of \<^verbatim>\<open>meta.Accessor\<close>, a type mismatch,
  and the state unchanged, the mutex untouched. For a nil pointer of an object type it does
  not return: it panics at \<^verbatim>\<open>o.GetUID()\<close>. Otherwise it returns without an error, having
  locked the mutex, removed the entry of that UID and unlocked the mutex, in this order and
  with nothing else done to the map; when there was no such entry the map is unchanged.
  After an Add and a Delete of the same object the map has no entry for its UID, the other
  entries being those after the Add.
\<close>

theorem Delete_removes_identity:
  "(\<forall>e. meta_Accessor ob = Inl e \<longrightarrow> Delete s ob = Returns (s, Some e) \<and> TypeMismatch e)
   \<and> (meta_Accessor ob = Inr None \<longrightarrow> Delete s ob = Panics NilPointerDereference)
   \<and> (\<forall>m. meta_Accessor ob = Inr (Some m) \<longrightarrow>
        Delete s ob = Returns (s\<lparr>Store := (Store s)(UID m := None),
                                  events := events s @ [MutexLock, StoreDelete (UID m),
                                                        MutexUnlock]\<rparr>, None)
        \<and> (Store s (UID m) = None \<longrightarrow> (Store s)(UID m := None) = Store s))
   \<and> (\<forall>m. meta_Accessor ob = Inr (Some m) \<longrightarrow>
        (\<exists>s1 r s2. Add w s ob = Returns (s1, r) \<and> Delete s1 ob = Returns (s2, None)
           \<and> Store s2 (UID m) = None \<and> (\<forall>uid. uid \<noteq> UID m \<longrightarrow> Store s2 uid = Store s1 uid)))"
proof (intro conjI allI impI)
  fix e assume "meta_Accessor ob = Inl e"
  then show "Delete s ob = Returns (s, Some e)" by (simp add: Delete_def)
  from \<open>meta_Accessor ob = Inl e\<close> show "TypeMismatch e" by (cases ob) auto
next
  assume "meta_Accessor ob = Inr None"
  then show "Delete s ob = Panics NilPointerDereference" by (simp add: Delete_def)
next
  fix m assume m: "meta_Accessor ob = Inr (Some m)"
  then show "Delete s ob = Returns (s\<lparr>Store := (Store s)(UID m := None),
                                  events := events s @ [MutexLock, StoreDelete (UID m),
                                                        MutexUnlock]\<rparr>, None)"
    by (simp add: Delete_def store_op_defs)
  show "(Store s)(UID m := None) = Store s" if "Store s (UID m) = None"
    using that by (simp add: fun_upd_idem)
  from m have "ob \<noteq> NilPoolObj" by auto
  then obtain s1 r where "Add w s ob = Returns (s1, r)" using Add_returns by blast
  with m show "\<exists>s1 r s2. Add w s ob = Returns (s1, r) \<and> Delete s1 ob = Returns (s2, None)
           \<and> Store s2 (UID m) = None \<and> (\<forall>uid. uid \<noteq> UID m \<longrightarrow> Store s2 uid = Store s1 uid)"
    by (simp add: Delete_def store_op_defs)
qed

theorem Delete_removes_identity_witness:
  "Delete ex_populated (NoMetaObj ''string'') = Returns (ex_populated, Some NotAnObject)
   \<and> TypeMismatch NotAnObject
   \<and> Delete ex_populated (NilOtherObj ''*v1.Pod'') = Panics NilPointerDereference
   \<and> Delete ex_populated (PoolObj (ex_pool ''pool1'' ''ns1'' ''u1'' True))
       = Returns (ex_populated\<lparr>Store := (Store ex_populated)(''u1'' := None),
                    events := [MutexLock, StoreDelete ''u1'', MutexUnlock]\<rparr>, None)
   \<and> (Store ex_populated)(''u9'' := None) = Store ex_populated
   \<and> (\<exists>s1 r s2.
        Add ex_world ex_populated (PoolObj (ex_pool ''pool1'' ''ns1'' ''u1'' True)) = Returns (s1, r)
        \<and> Delete s1 (PoolObj (ex_pool ''pool1'' ''ns1'' ''u1'' True)) = Returns (s2, None)
        \<and> Store s2 ''u1'' = None \<and> Store s2 ''u2'' = Store s1 ''u2'')"
proof -
  have a: "meta_Accessor (NoMetaObj ''string'') = Inl NotAnObject" by simp
  have n: "meta_Accessor (NilOtherObj ''*v1.Pod'') = Inr None" by simp
  have b: "meta_Accessor (PoolObj (ex_pool name ''ns1'' uid True))
             = Inr (Some \<lparr>Name = name, Namespace = ''ns1'', UID = uid\<rparr>)" for name uid
    by (simp add: ex_pool_def)
  have c: "Store ex_populated (UID \<lparr>Name = ''pool9'', Namespace = ''ns1'', UID = ''u9''\<rparr>) = None"
    by (simp add: ex_populated_def)
  note t1 = Delete_removes_identity [THEN conjunct1, rule_format, OF a]
  note t2 = Delete_removes_identity [THEN conjunct2, THEN conjunct1, rule_format, OF n]
  note t3 = Delete_removes_identity [THEN conjunct2, THEN conjunct2, THEN conjunct1,
      rule_format, OF b]
  obtain s1 r s2 where
    d: "Add ex_world ex_populated (PoolObj (ex_pool ''pool1'' ''ns1'' ''u1'' True)) = Returns (s1, r)"
      "Delete s1 (PoolObj (ex_pool ''pool1'' ''ns1'' ''u1'' True)) = Returns (s2, None)"
      "Store s2 (UID \<lparr>Name = ''pool1'', Namespace = ''ns1'', UID = ''u1''\<rparr>) = None"
      "\<forall>uid. uid \<noteq> UID \<lparr>Name = ''pool1'', Namespace = ''ns1'', UID = ''u1''\<rparr>
          \<longrightarrow> Store s2 uid = Store s1 uid"
    using Delete_removes_identity [of "PoolObj (ex_pool ''pool1'' ''ns1'' ''u1'' True)"
        ex_populated ex_world, THEN conjunct2, THEN conjunct2, THEN conjunct2, rule_format,
        OF b]
    by blast
  from d(4) have e: "Store s2 ''u2'' = Store s1 ''u2''" by simp
  from d(3) have f: "Store s2 ''u1'' = None" by simp
  have g: "Delete ex_populated (PoolObj (ex_pool ''pool1'' ''ns1'' ''u1'' True))
       = Returns (ex_populated\<lparr>Store := (Store ex_populated)(''u1'' := None),
                    events := [MutexLock, StoreDelete ''u1'', MutexUnlock]\<rparr>, None)"
    using t3 [of ex_populated "''pool1''" "''u1''", THEN conjunct1]
    by (simp add: ex_populated_fields)
  have h: "(Store ex_populated)(''u9'' := None) = Store ex_populated"
    using t3 [of ex_populated "''pool9''" "''u9''", THEN conjunct2, rule_format, OF c] by simp
  have x: "\<exists>s1 r s2.
        Add ex_world ex_populated (PoolObj (ex_pool ''pool1'' ''ns1'' ''u1'' True)) = Returns (s1, r)
        \<and> Delete s1 (PoolObj (ex_pool ''pool1'' ''ns1'' ''u1'' True)) = Returns (s2, None)
        \<and> Store s2 ''u1'' = None \<and> Store s2 ''u2'' = Store s1 ''u2''"
    using d(1,2) e f by blast
  show ?thesis using t1 [of ex_populated] t2 [of ex_populated] g h x by simp
qed

text \<open>
  The nil pointer of the pool type is an input from which Delete neither takes an identity
  nor returns a type mismatch.
\<close>

theorem Delete_nil_pool_counterexample:
  "Delete ex_populated NilPoolObj = Panics NilPointerDereference"
  by (simp add: Delete_def)

subsection \<open>One attempt for each fetch\<close>

text \<open>
  Claim C9, as the code has it. When monitor, id and key are all empty, \<^verbatim>\<open>rbdImageStatus\<close>
  returns the error of an unspecified command input and the history of external calls it
  was given: nothing is run. In every other case the history grows by exactly one entry,
  the one attempt to run \<^verbatim>\<open>rbd\<close> with the arguments of the pool, whatever comes of it;
  there is no second attempt. The attempt starts one process when the command can be
  started and none when it cannot; then the error of the failed start is returned.
\<close>

theorem rbdImageStatus_one_attempt:
  "(monitor inp = [] \<and> id' inp = [] \<and> key inp = [] \<longrightarrow>
      rbdImageStatus w h inp poolName = (h, zero_RBDMirrorStatusVerbose, Some IncompleteCredentials))
   \<and> (\<not> (monitor inp = [] \<and> id' inp = [] \<and> key inp = []) \<longrightarrow>
      fst (rbdImageStatus w h inp poolName)
        = h @ [Exec ''rbd'' (rbd_args inp poolName) (starts w h ''rbd'' (rbd_args inp poolName))]
      \<and> processes_spawned (fst (rbdImageStatus w h inp poolName))
        = processes_spawned h + (if starts w h ''rbd'' (rbd_args inp poolName) then 1 else 0)
      \<and> (\<forall>err. combined_output w h ''rbd'' (rbd_args inp poolName) = StartFailed err \<longrightarrow>
            rbdImageStatus w h inp poolName
              = (h @ [Exec ''rbd'' (rbd_args inp poolName) False], zero_RBDMirrorStatusVerbose,
                 Some (CommandExecutionError err))))"
proof (intro conjI impI allI)
  assume "monitor inp = [] \<and> id' inp = [] \<and> key inp = []"
  then show "rbdImageStatus w h inp poolName
      = (h, zero_RBDMirrorStatusVerbose, Some IncompleteCredentials)"
    by (simp add: rbdImageStatus_def)
next
  assume n: "\<not> (monitor inp = [] \<and> id' inp = [] \<and> key inp = [])"
  then show c: "fst (rbdImageStatus w h inp poolName)
        = h @ [Exec ''rbd'' (rbd_args inp poolName) (starts w h ''rbd'' (rbd_args inp poolName))]"
    by (simp add: rbdImageStatus_calls)
  show "processes_spawned (fst (rbdImageStatus w h inp poolName))
        = processes_spawned h + (if starts w h ''rbd'' (rbd_args inp poolName) then 1 else 0)"
    by (simp add: c processes_spawned_def)
  show "rbdImageStatus w h inp poolName
              = (h @ [Exec ''rbd'' (rbd_args inp poolName) False], zero_RBDMirrorStatusVerbose,
                 Some (CommandExecutionError err))"
    if "combined_output w h ''rbd'' (rbd_args inp poolName) = StartFailed err" for err
    using n execCommand_start_failed [OF that] by (auto simp: rbdImageStatus_def)
qed

theorem rbdImageStatus_one_attempt_witness:
  "rbdImageStatus ex_world [] \<lparr>monitor = [], id' = [], key = []\<rparr> ''pool1''
     = ([], zero_RBDMirrorStatusVerbose, Some IncompleteCredentials)
   \<and> fst (rbdImageStatus ex_world [] ex_input ''pool2'')
     = [Exec ''rbd'' [''mirror'', ''pool'', ''status'', ''pool2'', ''--verbose'', ''--format'',
          ''json'', ''-m'', ''10.0.0.1:6789'', ''--id'', ''admin'', ''--key'', ''AQABCDEF=='',
          ''--debug-rbd'', ''0''] True]
   \<and> processes_spawned (fst (rbdImageStatus ex_world [] ex_input ''pool2'')) = 1
   \<and> rbdImageStatus ex_world_no_rbd [] ex_input ''pool2''
     = ([Exec ''rbd'' (rbd_args ex_input ''pool2'') False], zero_RBDMirrorStatusVerbose,
        Some (CommandExecutionError ''executable file not found in $PATH''))"
proof -
  have e: "monitor \<lparr>monitor = [], id' = [], key = []\<rparr> = []
      \<and> id' \<lparr>monitor = [], id' = [], key = []\<rparr> = []
      \<and> key \<lparr>monitor = [], id' = [], key = []\<rparr> = []"
    by simp
  have n: "\<not> (monitor ex_input = [] \<and> id' ex_input = [] \<and> key ex_input = [])"
    by (simp add: ex_input_def)
  have s: "starts ex_world [] ''rbd'' (rbd_args ex_input ''pool2'')"
    by (simp add: starts_def ex_world_def)
  have f: "combined_output ex_world_no_rbd [] ''rbd'' (rbd_args ex_input ''pool2'')
      = StartFailed ''executable file not found in $PATH''"
    by (simp add: ex_world_no_rbd_def)
  note t1 = rbdImageStatus_one_attempt [THEN conjunct1, rule_format, OF e]
  note t2 = rbdImageStatus_one_attempt [THEN conjunct2, rule_format, OF n]
  show ?thesis
    using t1 [of ex_world "[]" "''pool1''"]
      t2 [of ex_world "[]" "''pool2''", THEN conjunct1]
      t2 [of ex_world "[]" "''pool2''", THEN conjunct2, THEN conjunct1]
      t2 [of ex_world_no_rbd "[]" "''pool2''", THEN conjunct2, THEN conjunct2, rule_format, OF f]
      s
    by (simp add: processes_spawned_def rbd_args_def ex_input_def)
qed

text \<open>
  With the credentials of \<open>ns1\<close> and no \<^verbatim>\<open>rbd\<close> executable, the fetch spawns no process.
\<close>

theorem rbdImageStatus_one_process_counterexample:
  "monitor ex_input \<noteq> []
   \<and> processes_spawned [] = 0
   \<and> processes_spawned (fst (rbdImageStatus ex_world_no_rbd [] ex_input ''pool1'')) = 0"
  by (simp add: processes_spawned_def rbdImageStatus_def execCommand_def ex_world_no_rbd_def
      ex_input_def)

subsection \<open>Resync keeps the identities\<close>

text \<open>
  Claim C10. After Resync, for every store, world and order of the keys, the map has the keys
  it had before, and every record has the pool name and the pool namespace it had before:
  it is the old record but for the field \<^verbatim>\<open>MirrorStatus\<close>.
\<close>

theorem Resync_keeps_identities:
  "\<exists>s'. Resync w order s = Returns (s', None)
     \<and> dom (Store s') = dom (Store s)
     \<and> (\<forall>uid v. Store s uid = Some v \<longrightarrow>
          (\<exists>v'. Store s' uid = Some v' \<and> PoolName v' = PoolName v
             \<and> PoolNamespace v' = PoolNamespace v
             \<and> v' = v\<lparr>MirrorStatus := MirrorStatus v'\<rparr>))"
proof -
  obtain s1 where l: "Resync_loop w (Mutex_Lock (klog_write Info_resync_started s)) order
      = Returns s1"
    using Resync_loop_returns by blast
  have e: "case Store s uid of
        None \<Rightarrow> Store s1 uid = None
      | Some v \<Rightarrow> \<exists>st. Store s1 uid = Some (v\<lparr>MirrorStatus := st\<rparr>)" for uid
    using Resync_loop_entry [OF l, of uid] by (simp add: store_op_defs)
  have r: "Resync w order s = Returns (Mutex_Unlock (klog_write Info_resync_ended s1), None)"
    using l by (simp add: Resync_def)
  have d: "dom (Store s1) = dom (Store s)"
  proof (rule set_eqI)
    fix uid show "uid \<in> dom (Store s1) \<longleftrightarrow> uid \<in> dom (Store s)"
      using e [of uid] by (auto split: option.splits)
  qed
  have n: "\<exists>v'. Store s1 uid = Some v' \<and> PoolName v' = PoolName v
             \<and> PoolNamespace v' = PoolNamespace v \<and> v' = v\<lparr>MirrorStatus := MirrorStatus v'\<rparr>"
    if "Store s uid = Some v" for uid v
    using e [of uid] that by auto
  show ?thesis using r d n by (simp add: store_op_defs)
qed

theorem Resync_keeps_identities_witness:
  "Store ex_populated ''u1'' = Some (ex_record ''pool1'' zero_RBDMirrorStatusVerbose)
   \<and> (\<exists>s'. Resync ex_world [''u2'', ''u1''] ex_populated = Returns (s', None)
         \<and> dom (Store s') = {''u1'', ''u2''}
         \<and> (\<exists>v'. Store s' ''u1'' = Some v' \<and> PoolName v' = ''pool1''
               \<and> PoolNamespace v' = ''ns1'' \<and> MirrorStatus v' = ex_status))"
proof -
  have a: "Store ex_populated ''u1'' = Some (ex_record ''pool1'' zero_RBDMirrorStatusVerbose)"
    by (simp add: ex_populated_def)
  have d: "dom (Store ex_populated) = {''u1'', ''u2''}"
    by (auto simp: ex_populated_def)
  obtain s' where s': "Resync ex_world [''u2'', ''u1''] ex_populated = Returns (s', None)"
    "dom (Store s') = dom (Store ex_populated)"
    "\<forall>uid v. Store ex_populated uid = Some v \<longrightarrow>
          (\<exists>v'. Store s' uid = Some v' \<and> PoolName v' = PoolName v
             \<and> PoolNamespace v' = PoolNamespace v
             \<and> v' = v\<lparr>MirrorStatus := MirrorStatus v'\<rparr>)"
    using Resync_keeps_identities [of ex_world "[''u2'', ''u1'']" ex_populated] by blast
  from s'(3) a obtain v' where v': "Store s' ''u1'' = Some v'"
    "PoolName v' = PoolName (ex_record ''pool1'' zero_RBDMirrorStatusVerbose)"
    "PoolNamespace v' = PoolNamespace (ex_record ''pool1'' zero_RBDMirrorStatusVerbose)"
    by blast
  have "MirrorStatus v' = ex_status"
    using s'(1) v'(1) by (auto simp: ex_Resync ex_record_def)
  with a d s' v' show ?thesis by (simp add: ex_record_def)
qed

end
